theory Spec2Isabelle
  imports Complex_Main
begin

section \<open>Alertmanager monitor: the background poller, its utilities and its API client\<close>

text \<open>
  A shallow embedding of the extension's background script (\<open>pollAlerts\<close>,
  \<open>checkForNewAlerts\<close>, \<open>updateBadge\<close>, \<open>setupAlarm\<close>), of the two utilities it calls
  (\<open>Utils.countActiveAlerts\<close>, \<open>Utils.getBadgeColor\<close>), of the storage wrapper and of the
  API client's request construction.

  JavaScript strings are modelled as \<open>string\<close>; the characters the code inspects (the
  slash, the letters of the severity) are ASCII. Counts and priorities are natural
  numbers. The other numbers (the poll interval, the alarm's delay and period) are
  binary64 values, each modelled by the rational it is exactly equal to; a division and
  a decimal literal are rounded to binary64, by \<open>double\<close> below.
\<close>

subsection \<open>Alerts\<close>

text \<open>
  An alert as the code reads it: \<open>a.fingerprint\<close>, \<open>a.labels?.severity\<close>,
  \<open>a.labels?.alertname\<close>, \<open>a.annotations?.summary\<close>, \<open>a.status?.state\<close>. An object that
  may be missing is an option, an object with string keys an association list.
\<close>

record status =
  state :: "string option"
  silencedBy :: "string list"
  inhibitedBy :: "string list"

record alert =
  fingerprint :: string
  labels :: "(string \<times> string) list option"
  annotations :: "(string \<times> string) list option"
  alert_status :: "status option"

text \<open>\<open>a.labels?.[k]\<close>, \<open>a.annotations?.[k]\<close> and \<open>a.status?.state\<close>: undefined is \<open>None\<close>.\<close>

definition label :: "alert \<Rightarrow> string \<Rightarrow> string option" where
  "label a k = (case labels a of None \<Rightarrow> None | Some ls \<Rightarrow> map_of ls k)"

definition annotation :: "alert \<Rightarrow> string \<Rightarrow> string option" where
  "annotation a k = (case annotations a of None \<Rightarrow> None | Some ls \<Rightarrow> map_of ls k)"

definition status_state :: "alert \<Rightarrow> string option" where
  "status_state a = (case alert_status a of None \<Rightarrow> None | Some s \<Rightarrow> state s)"

text \<open>\<open>a.status?.state === 'active'\<close>.\<close>

definition is_active :: "alert \<Rightarrow> bool" where
  "is_active a = (status_state a = Some ''active'')"

text \<open>\<open>x || d\<close> on an optional string: undefined and the empty string are falsy.\<close>

definition or_default :: "string option \<Rightarrow> string \<Rightarrow> string" where
  "or_default x d = (case x of None \<Rightarrow> d | Some s \<Rightarrow> if s = [] then d else s)"

subsection \<open>Utils\<close>

text \<open>\<open>Utils.countActiveAlerts\<close>: \<open>alerts.filter((a) => a.status?.state === 'active').length\<close>.\<close>

definition countActiveAlerts :: "alert list \<Rightarrow> nat" where
  "countActiveAlerts alerts = length (filter is_active alerts)"

text \<open>
  \<open>Utils.getBadgeColor\<close>. The argument is \<open>None\<close> for a null or undefined list
  (\<open>!alerts\<close>). \<open>some\<close> is \<open>list_ex\<close>.
\<close>

definition getBadgeColor :: "alert list option \<Rightarrow> string" where
  "getBadgeColor arg =
     (case arg of
        None \<Rightarrow> ''#4ade80''
      | Some alerts \<Rightarrow>
          if length alerts = 0 then ''#4ade80''
          else
            let hasCritical =
                  list_ex (\<lambda>a. label a ''severity'' = Some ''critical'' \<and> is_active a) alerts;
                hasWarning =
                  list_ex (\<lambda>a. label a ''severity'' = Some ''warning'' \<and> is_active a) alerts
            in if hasCritical then ''#dc2626''
               else if hasWarning then ''#d97706''
               else ''#2563eb'')"

text \<open>\<open>String(n)\<close> for a count: the decimal digits.\<close>

definition digit_char :: "nat \<Rightarrow> char" where
  "digit_char d = ''0123456789'' ! d"

fun string_of_nat :: "nat \<Rightarrow> string" where
  "string_of_nat n =
     (if n < 10 then [digit_char n] else string_of_nat (n div 10) @ [digit_char (n mod 10)])"

declare string_of_nat.simps [simp del]

text \<open>
  \<open>String.prototype.toUpperCase\<close> on ASCII: the letters a to z move to A to Z, every
  other character stays.
\<close>

definition upper_char :: "char \<Rightarrow> char" where
  "upper_char c =
     (case map_of (zip ''abcdefghijklmnopqrstuvwxyz'' ''ABCDEFGHIJKLMNOPQRSTUVWXYZ'') c of
        None \<Rightarrow> c
      | Some u \<Rightarrow> u)"

definition toUpperCase :: "string \<Rightarrow> string" where
  "toUpperCase s = map upper_char s"

subsection \<open>Numbers\<close>

text \<open>
  Binary64 arithmetic, on exact values. \<open>bitlen n\<close> is the number of binary digits of
  \<open>n\<close>, and \<open>exponent x\<close>, for a positive \<open>x\<close>, is the \<open>e\<close> with \<open>2^e \<le> x < 2^(e+1)\<close>.
  \<open>double x\<close> is the value with a significand of 53 bits that is nearest to \<open>x\<close>, the
  tie going to the even significand: what a division returns for the exact quotient
  \<open>x\<close>, and what a decimal literal denotes. It is binary64 for magnitudes in the normal
  range, from \<open>2^-1022\<close> up to \<open>2^1024\<close>; infinities and NaN are not modelled.
\<close>

fun bitlen :: "nat \<Rightarrow> nat" where
  "bitlen n = (if n = 0 then 0 else Suc (bitlen (n div 2)))"

declare bitlen.simps [simp del]

definition exponent :: "rat \<Rightarrow> int" where
  "exponent x =
     (if 1 \<le> x then int (bitlen (nat \<lfloor>x\<rfloor>)) - 1
      else
        let j = int (bitlen (nat \<lfloor>1 / x\<rfloor>)) - 1
        in if x * 2 powi j = 1 then - j else - j - 1)"

definition round_half_even :: "rat \<Rightarrow> int" where
  "round_half_even y =
     (let f = \<lfloor>y\<rfloor>; r = y - of_int f
      in if r < 1 / 2 then f
         else if 1 / 2 < r then f + 1
         else if even f then f else f + 1)"

definition double :: "rat \<Rightarrow> rat" where
  "double x =
     (if x = 0 then 0
      else
        let a = \<bar>x\<bar>;
            s = 2 powi (52 - exponent a);
            n = round_half_even (a * s)
        in sgn x * of_int n / s)"

subsection \<open>The API client: URL normalisation and the requests\<close>

text \<open>
  \<open>_normalizeUrl(url) = url.replace(/\/+$/, '')\<close>. The pattern has no \<open>g\<close> and no
  \<open>m\<close> flag: the first match from the left is replaced, and \<open>$\<close> is the end of the
  string. A match starts at the first position that holds a slash and from which only
  slashes follow up to the end; it is then the whole rest of the string.
\<close>

fun all_slashes :: "string \<Rightarrow> bool" where
  "all_slashes [] = True"
| "all_slashes (c # cs) = (c = CHR ''/'' \<and> all_slashes cs)"

fun normalizeUrl :: "string \<Rightarrow> string" where
  "normalizeUrl [] = []"
| "normalizeUrl (c # cs) =
     (if c = CHR ''/'' \<and> all_slashes cs then [] else c # normalizeUrl cs)"

text \<open>
  \<open>_buildHeaders\<close>. \<open>btoa\<close> is the browser's base64 encoder, a parameter here. An
  absent or empty user name or token is falsy.
\<close>

record am_instance =
  inst_id :: string
  inst_name :: string
  inst_url :: string
  authType :: string
  username :: "string option"
  password :: "string option"
  token :: "string option"

definition truthy :: "string option \<Rightarrow> bool" where
  "truthy x = (case x of None \<Rightarrow> False | Some s \<Rightarrow> s \<noteq> [])"

definition buildHeaders :: "(string \<Rightarrow> string) \<Rightarrow> am_instance \<Rightarrow> (string \<times> string) list" where
  "buildHeaders btoa inst =
     (let headers = [(''Accept'', ''application/json''), (''Content-Type'', ''application/json'')]
      in if authType inst = ''basic'' \<and> truthy (username inst)
         then headers @
           [(''Authorization'',
             ''Basic '' @ btoa (the (username inst) @ '':'' @ or_default (password inst) []))]
         else if authType inst = ''bearer'' \<and> truthy (token inst)
         then headers @ [(''Authorization'', ''Bearer '' @ the (token inst))]
         else headers)"

text \<open>
  The filter object of \<open>getAlerts\<close>: four optional booleans, \<open>filter.filter\<close> (absent, one
  matcher or an array of matchers) and \<open>filter.receiver\<close>.
\<close>

datatype matchers = NoMatcher | OneMatcher string | ManyMatchers "string list"

record alert_filter =
  f_active :: "bool option"
  f_silenced :: "bool option"
  f_inhibited :: "bool option"
  f_unprocessed :: "bool option"
  f_filter :: matchers
  f_receiver :: "string option"

text \<open>
  The operations \<open>getAlerts\<close> applies to \<open>url.searchParams\<close>, in the order it applies
  them. \<open>String(b)\<close> of a boolean is \<open>true\<close> or \<open>false\<close>; an undefined flag counts as true.
\<close>

datatype param_op = ParamSet string string | ParamAppend string string

definition string_of_bool :: "bool \<Rightarrow> string" where
  "string_of_bool b = (if b then ''true'' else ''false'')"

definition flag :: "bool option \<Rightarrow> bool" where
  "flag x = (case x of None \<Rightarrow> True | Some b \<Rightarrow> b)"

definition matcher_ops :: "matchers \<Rightarrow> param_op list" where
  "matcher_ops m =
     (case m of
        NoMatcher \<Rightarrow> []
      | OneMatcher f \<Rightarrow> if f = [] then [] else [ParamAppend ''filter'' f]
      | ManyMatchers fs \<Rightarrow> map (ParamAppend ''filter'') fs)"

definition alert_params :: "alert_filter \<Rightarrow> param_op list" where
  "alert_params f =
     [ParamSet ''active'' (string_of_bool (flag (f_active f))),
      ParamSet ''silenced'' (string_of_bool (flag (f_silenced f))),
      ParamSet ''inhibited'' (string_of_bool (flag (f_inhibited f))),
      ParamSet ''unprocessed'' (string_of_bool (flag (f_unprocessed f)))]
     @ matcher_ops (f_filter f)
     @ (if truthy (f_receiver f) then [ParamSet ''receiver'' (the (f_receiver f))] else [])"

subsection \<open>The environment of one invocation\<close>

text \<open>
  What the browser and the network answer while one background function runs.
  \<^item> \<open>sync_reads env k\<close>: the answer to the \<open>k\<close>-th \<open>chrome.storage.sync.get('settings')\<close>
    of the invocation (counted from 0): a rejection, or the stored settings object
    (\<open>None\<close> when the key is not set).
  \<^item> \<open>href env s ops\<close>: the string of the URL object made by \<open>new URL(s)\<close> after the
    operations \<open>ops\<close> on its search parameters; \<open>None\<close> when \<open>new URL(s)\<close> throws.
  \<^item> \<open>fetch_alerts\<close>, \<open>fetch_silences\<close>: what \<open>fetch\<close> does for a URL and headers; the
    body is the decoded JSON of the endpoint.
  \<^item> \<open>now env k\<close>: the \<open>k\<close>-th reading of \<open>Date.now()\<close>.
  \<^item> \<open>getURL\<close>: \<open>chrome.runtime.getURL\<close>.
\<close>

datatype error = Error string

fun err_message :: "error \<Rightarrow> string" where
  "err_message (Error m) = m"

datatype 'a fetched =
    Aborted
  | Rejected string
  | Response bool nat string "string + 'a"

record silence =
  silence_id :: string
  silence_state :: "string option"

record stored_settings =
  s_instances :: "am_instance list option"
  s_activeInstanceId :: "string option option"
  s_pollInterval :: "rat option"
  s_enableNotifications :: "bool option"
  s_enableBadge :: "bool option"
  s_theme :: "string option"
  s_defaultFilter :: "alert_filter option"

record env =
  sync_reads :: "nat \<Rightarrow> error + stored_settings option"
  href :: "string \<Rightarrow> param_op list \<Rightarrow> string option"
  btoa :: "string \<Rightarrow> string"
  fetch_alerts :: "string \<Rightarrow> (string \<times> string) list \<Rightarrow> alert list fetched"
  fetch_silences :: "string \<Rightarrow> (string \<times> string) list \<Rightarrow> silence list fetched"
  now :: "nat \<Rightarrow> nat"
  getURL :: "string \<Rightarrow> string"

text \<open>
  \<open>_fetch(url, headers, timeout)\<close>: an abort becomes the timeout error, any other
  rejection is rethrown, a response that is not ok becomes the HTTP error, and a body
  that does not decode rejects.
\<close>

definition api_fetch :: "'a fetched \<Rightarrow> nat \<Rightarrow> error + 'a" where
  "api_fetch r timeout =
     (case r of
        Aborted \<Rightarrow> Inl (Error (''Request timeout after '' @ string_of_nat timeout @ ''ms''))
      | Rejected m \<Rightarrow> Inl (Error m)
      | Response ok code txt body \<Rightarrow>
          if \<not> ok then Inl (Error (''HTTP '' @ string_of_nat code @ '': '' @ txt))
          else (case body of Inl m \<Rightarrow> Inl (Error m) | Inr v \<Rightarrow> Inr v))"

text \<open>
  \<open>getAlerts(instance, filter)\<close>: the request URL, then the fetch with the default
  timeout of 10000 ms. \<open>getSilences(instance)\<close> as the poller calls it, with no filter.
\<close>

definition alerts_url :: "env \<Rightarrow> am_instance \<Rightarrow> alert_filter \<Rightarrow> string option" where
  "alerts_url env inst f =
     (let baseUrl = normalizeUrl (inst_url inst)
      in href env (baseUrl @ ''/api/v2/alerts'') (alert_params f))"

definition getAlerts :: "env \<Rightarrow> am_instance \<Rightarrow> alert_filter \<Rightarrow> error + alert list" where
  "getAlerts env inst f =
     (case alerts_url env inst f of
        None \<Rightarrow> Inl (Error ''Invalid URL'')
      | Some u \<Rightarrow> api_fetch (fetch_alerts env u (buildHeaders (btoa env) inst)) 10000)"

definition getSilences :: "env \<Rightarrow> am_instance \<Rightarrow> error + silence list" where
  "getSilences env inst =
     (let baseUrl = normalizeUrl (inst_url inst)
      in case href env (baseUrl @ ''/api/v2/silences'') [] of
           None \<Rightarrow> Inl (Error ''Invalid URL'')
         | Some u \<Rightarrow> api_fetch (fetch_silences env u (buildHeaders (btoa env) inst)) 10000)"

subsection \<open>The storage wrapper: settings\<close>

record settings =
  instances :: "am_instance list"
  activeInstanceId :: "string option"
  pollInterval :: rat
  enableNotifications :: bool
  enableBadge :: bool
  theme :: string
  defaultFilter :: alert_filter

definition DEFAULT_SETTINGS :: settings where
  "DEFAULT_SETTINGS =
     \<lparr>instances = [], activeInstanceId = None, pollInterval = 30,
      enableNotifications = True, enableBadge = True, theme = ''light'',
      defaultFilter =
        \<lparr>f_active = Some True, f_silenced = Some True, f_inhibited = Some True,
         f_unprocessed = Some True, f_filter = NoMatcher, f_receiver = None\<rparr>\<rparr>"

text \<open>
  \<open>{ ...DEFAULT_SETTINGS, ...data.settings }\<close>: a shallow merge, a stored field wins.
  A stored \<open>activeInstanceId\<close> is \<open>Some None\<close> when it is \<open>null\<close>.
\<close>

definition merge_settings :: "settings \<Rightarrow> stored_settings option \<Rightarrow> settings" where
  "merge_settings d stored =
     (case stored of
        None \<Rightarrow> d
      | Some s \<Rightarrow>
          \<lparr>instances = (case s_instances s of None \<Rightarrow> instances d | Some x \<Rightarrow> x),
           activeInstanceId =
             (case s_activeInstanceId s of None \<Rightarrow> activeInstanceId d | Some x \<Rightarrow> x),
           pollInterval = (case s_pollInterval s of None \<Rightarrow> pollInterval d | Some x \<Rightarrow> x),
           enableNotifications =
             (case s_enableNotifications s of None \<Rightarrow> enableNotifications d | Some x \<Rightarrow> x),
           enableBadge = (case s_enableBadge s of None \<Rightarrow> enableBadge d | Some x \<Rightarrow> x),
           theme = (case s_theme s of None \<Rightarrow> theme d | Some x \<Rightarrow> x),
           defaultFilter = (case s_defaultFilter s of None \<Rightarrow> defaultFilter d | Some x \<Rightarrow> x)\<rparr>)"

text \<open>\<open>Storage.getSettings\<close> and \<open>Storage.getActiveInstance\<close>, each on the answer to its read.\<close>

definition getSettings :: "error + stored_settings option \<Rightarrow> error + settings" where
  "getSettings answer =
     (case answer of Inl e \<Rightarrow> Inl e | Inr stored \<Rightarrow> Inr (merge_settings DEFAULT_SETTINGS stored))"

definition getActiveInstance :: "error + stored_settings option \<Rightarrow> error + am_instance option" where
  "getActiveInstance answer =
     (case getSettings answer of
        Inl e \<Rightarrow> Inl e
      | Inr s \<Rightarrow>
          if \<not> truthy (activeInstanceId s) then Inr None
          else Inr (find (\<lambda>i. Some (inst_id i) = activeInstanceId s) (instances s)))"

subsection \<open>The browser state and the calls made on it\<close>

text \<open>
  The state the background script writes: the badge, the entries of
  \<open>chrome.storage.local\<close>, the alarms, and the log of every call made, in order.
  \<open>chrome.storage.local\<close> holds three families of entries, under the keys
  \<open>fingerprints_<id>\<close>, \<open>alerts_<id>\<close> and \<open>silences_<id>\<close>; each family is a map from the
  instance id (lemma \<open>local_keys_distinct\<close> below: no key belongs to two families, and a
  key determines the id). The calls are modelled as succeeding; the read of the settings
  and the network requests are the environment's and may fail.
\<close>

record notification =
  ntype :: string
  iconUrl :: string
  title :: string
  message :: string
  priority :: nat

record alarm =
  delayInMinutes :: rat
  periodInMinutes :: rat

datatype stored =
    Fingerprints "string list"
  | CachedAlerts "alert list" nat
  | CachedSilences "silence list" nat

datatype call =
    SetBadgeText string
  | SetBadgeBackgroundColor string
  | SetBadgeTextColor string
  | LocalSet string stored
  | NotificationsCreate string notification
  | AlarmsClear string
  | AlarmsCreate string alarm
  | ConsoleError string string

record world =
  badgeText :: string
  badgeBackgroundColor :: string
  badgeTextColor :: string
  knownFingerprints :: "string \<rightharpoonup> string list"
  cachedAlerts :: "string \<rightharpoonup> alert list \<times> nat"
  cachedSilences :: "string \<rightharpoonup> silence list \<times> nat"
  alarms :: "(string \<times> alarm) list"
  calls :: "call list"

definition logged :: "call \<Rightarrow> world \<Rightarrow> world" where
  "logged c w = w\<lparr>calls := calls w @ [c]\<rparr>"

text \<open>\<open>chrome.action.setBadgeText\<close>, \<open>setBadgeBackgroundColor\<close>, \<open>setBadgeTextColor\<close>.\<close>

definition setBadgeText :: "string \<Rightarrow> world \<Rightarrow> world" where
  "setBadgeText t w = logged (SetBadgeText t) (w\<lparr>badgeText := t\<rparr>)"

definition setBadgeBackgroundColor :: "string \<Rightarrow> world \<Rightarrow> world" where
  "setBadgeBackgroundColor c w =
     logged (SetBadgeBackgroundColor c) (w\<lparr>badgeBackgroundColor := c\<rparr>)"

definition setBadgeTextColor :: "string \<Rightarrow> world \<Rightarrow> world" where
  "setBadgeTextColor c w = logged (SetBadgeTextColor c) (w\<lparr>badgeTextColor := c\<rparr>)"

text \<open>
  \<open>chrome.notifications.create(id, options)\<close> and \<open>console.error(prefix, message)\<close>: the
  call is what is recorded.
\<close>

definition notifications_create :: "string \<Rightarrow> notification \<Rightarrow> world \<Rightarrow> world" where
  "notifications_create i n w = logged (NotificationsCreate i n) w"

definition console_error :: "string \<Rightarrow> string \<Rightarrow> world \<Rightarrow> world" where
  "console_error p m w = logged (ConsoleError p m) w"

text \<open>
  \<open>chrome.alarms.clear(name)\<close> removes the triggers of that name; \<open>chrome.alarms.create\<close>
  adds one. The model's \<open>create\<close> removes nothing by itself, so that a trigger left
  single is the work of the caller (Chrome's own \<open>create\<close> also replaces a trigger of
  the same name).
\<close>

definition alarms_clear :: "string \<Rightarrow> world \<Rightarrow> world" where
  "alarms_clear n w =
     logged (AlarmsClear n) (w\<lparr>alarms := filter (\<lambda>p. fst p \<noteq> n) (alarms w)\<rparr>)"

definition alarms_create :: "string \<Rightarrow> alarm \<Rightarrow> world \<Rightarrow> world" where
  "alarms_create n a w = logged (AlarmsCreate n a) (w\<lparr>alarms := alarms w @ [(n, a)]\<rparr>)"

subsection \<open>The storage wrapper: cache and fingerprints\<close>

definition alerts_key :: "string \<Rightarrow> string" where
  "alerts_key instanceId = ''alerts_'' @ instanceId"

definition silences_key :: "string \<Rightarrow> string" where
  "silences_key instanceId = ''silences_'' @ instanceId"

definition fingerprints_key :: "string \<Rightarrow> string" where
  "fingerprints_key instanceId = ''fingerprints_'' @ instanceId"

text \<open>
  \<open>Storage.cacheAlerts\<close>, \<open>Storage.cacheSilences\<close> (the second argument is the reading of
  \<open>Date.now()\<close>), \<open>Storage.setKnownFingerprints\<close> and \<open>Storage.getKnownFingerprints\<close>
  (\<open>data[key] || []\<close>: no entry reads as the empty list).
\<close>

definition cacheAlerts :: "string \<Rightarrow> nat \<Rightarrow> alert list \<Rightarrow> world \<Rightarrow> world" where
  "cacheAlerts instanceId timestamp alerts w =
     logged (LocalSet (alerts_key instanceId) (CachedAlerts alerts timestamp))
       (w\<lparr>cachedAlerts := (cachedAlerts w)(instanceId \<mapsto> (alerts, timestamp))\<rparr>)"

definition cacheSilences :: "string \<Rightarrow> nat \<Rightarrow> silence list \<Rightarrow> world \<Rightarrow> world" where
  "cacheSilences instanceId timestamp silences w =
     logged (LocalSet (silences_key instanceId) (CachedSilences silences timestamp))
       (w\<lparr>cachedSilences := (cachedSilences w)(instanceId \<mapsto> (silences, timestamp))\<rparr>)"

definition setKnownFingerprints :: "string \<Rightarrow> string list \<Rightarrow> world \<Rightarrow> world" where
  "setKnownFingerprints instanceId fingerprints w =
     logged (LocalSet (fingerprints_key instanceId) (Fingerprints fingerprints))
       (w\<lparr>knownFingerprints := (knownFingerprints w)(instanceId \<mapsto> fingerprints)\<rparr>)"

definition getKnownFingerprints :: "string \<Rightarrow> world \<Rightarrow> string list" where
  "getKnownFingerprints instanceId w =
     (case knownFingerprints w instanceId of None \<Rightarrow> [] | Some fs \<Rightarrow> fs)"

subsection \<open>The background script\<close>

definition ALARM_NAME :: string where
  "ALARM_NAME = ''alertmanager-poll''"

definition NOTIFICATION_ID_PREFIX :: string where
  "NOTIFICATION_ID_PREFIX = ''am-alert-''"

text \<open>\<open>updateBadge(alerts, enabled)\<close>.\<close>

definition updateBadge :: "alert list \<Rightarrow> bool \<Rightarrow> world \<Rightarrow> world" where
  "updateBadge alerts enabled w =
     (if \<not> enabled then setBadgeText [] w
      else
        let activeCount = countActiveAlerts alerts;
            badge = (if activeCount > 0 then string_of_nat activeCount else []);
            color = getBadgeColor (Some alerts)
        in setBadgeTextColor ''#FFFFFF''
             (setBadgeBackgroundColor color (setBadgeText badge w)))"

text \<open>
  The body of the loop of \<open>checkForNewAlerts\<close>: the notification created for one new
  alert; and the batch notification, for the number of new alerts.
\<close>

definition alert_notification :: "env \<Rightarrow> alert \<Rightarrow> notification" where
  "alert_notification env a =
     (let severity = or_default (label a ''severity'') ''unknown'';
          alertname = or_default (label a ''alertname'') ''Alert'';
          summary = or_default (annotation a ''summary'') ''New alert fired''
      in \<lparr>ntype = ''basic'',
          iconUrl = getURL env ''icons/icon128.png'',
          title = ''['' @ toUpperCase severity @ ''] '' @ alertname,
          message = summary,
          priority = (if severity = ''critical'' then 2 else 1)\<rparr>)"

definition notify_alert :: "env \<Rightarrow> alert \<Rightarrow> world \<Rightarrow> world" where
  "notify_alert env a w =
     notifications_create (NOTIFICATION_ID_PREFIX @ fingerprint a) (alert_notification env a) w"

definition batch_notification :: "env \<Rightarrow> nat \<Rightarrow> notification" where
  "batch_notification env n =
     \<lparr>ntype = ''basic'',
      iconUrl = getURL env ''icons/icon128.png'',
      title = ''Alertmanager Monitor'',
      message = string_of_nat n @ '' new alerts detected'',
      priority = 1\<rparr>"

text \<open>
  \<open>newAlerts\<close>: the alerts of the fetch that are active and whose fingerprint the known
  list does not include, in the order of the fetch.
\<close>

definition new_alerts :: "string list \<Rightarrow> alert list \<Rightarrow> alert list" where
  "new_alerts known alerts =
     filter (\<lambda>a. is_active a \<and> fingerprint a \<notin> set known) alerts"

text \<open>\<open>checkForNewAlerts(instanceId, alerts)\<close>. \<open>slice(0, 5)\<close> is \<open>take 5\<close>.\<close>

definition checkForNewAlerts :: "env \<Rightarrow> string \<Rightarrow> alert list \<Rightarrow> world \<Rightarrow> world" where
  "checkForNewAlerts env instanceId alerts w =
     (let known = getKnownFingerprints instanceId w;
          currentFingerprints = map fingerprint alerts;
          newAlerts = new_alerts known alerts;
          w1 = (if length newAlerts > 0 \<and> length known > 0
                then
                  let w2 = fold (notify_alert env) (take 5 newAlerts) w
                  in if length newAlerts > 5
                     then notifications_create (NOTIFICATION_ID_PREFIX @ ''batch'')
                            (batch_notification env (length newAlerts)) w2
                     else w2
                else w)
      in setKnownFingerprints instanceId currentFingerprints w1)"

text \<open>
  \<open>pollAlerts()\<close>. The result is \<open>Inl\<close> when the promise rejects: only the first read,
  in \<open>getActiveInstance\<close>, is outside every \<open>try\<close>. The \<open>try\<close> around the fetch also
  holds \<open>Storage.cacheAlerts\<close>, and the handlers around \<open>updateBadge\<close> and
  \<open>checkForNewAlerts\<close> log and go on; with calls on the browser that succeed, the fetch
  is what can fail in the first and the other two handlers are never entered.
\<close>

definition pollAlerts :: "env \<Rightarrow> world \<Rightarrow> error + world" where
  "pollAlerts env w =
     (case getActiveInstance (sync_reads env 0) of
        Inl e \<Rightarrow> Inl e
      | Inr None \<Rightarrow> Inr (setBadgeText [] w)
      | Inr (Some inst) \<Rightarrow>
          (case getSettings (sync_reads env 1) of
             Inl e \<Rightarrow>
               Inr (console_error ''[Alertmanager Monitor] Failed to read settings:''
                      (err_message e) w)
           | Inr settings \<Rightarrow>
               (case getAlerts env inst (defaultFilter settings) of
                  Inl e \<Rightarrow>
                    Inr (setBadgeTextColor ''#FFFFFF''
                          (setBadgeBackgroundColor ''#6b7280''
                            (setBadgeText ''!''
                              (console_error ''[Alertmanager Monitor] Poll failed:''
                                 (err_message e) w))))
                | Inr alerts \<Rightarrow>
                    let w1 = cacheAlerts (inst_id inst) (now env 0) alerts w;
                        w2 = updateBadge alerts (enableBadge settings) w1;
                        w3 = (if enableNotifications settings
                              then checkForNewAlerts env (inst_id inst) alerts w2
                              else w2)
                    in Inr (case getSilences env inst of
                              Inl e \<Rightarrow>
                                console_error ''[Alertmanager Monitor] Silences fetch failed:''
                                  (err_message e) w3
                            | Inr silences \<Rightarrow>
                                cacheSilences (inst_id inst) (now env 1) silences w3))))"

text \<open>
  \<open>setupAlarm()\<close>: its read of the settings is outside every \<open>try\<close>.
  \<open>settings.pollInterval / 60\<close> is a binary64 division, \<open>0.5\<close> is exactly one half and
  \<open>0.1\<close> is the binary64 value nearest to one tenth; \<open>Math.max\<close> rounds nothing.
\<close>

definition setupAlarm :: "env \<Rightarrow> world \<Rightarrow> error + world" where
  "setupAlarm env w =
     (case getSettings (sync_reads env 0) of
        Inl e \<Rightarrow> Inl e
      | Inr settings \<Rightarrow>
          let intervalMinutes = max (double (pollInterval settings / 60)) (1 / 2)
          in Inr (alarms_create ALARM_NAME
                    \<lparr>delayInMinutes = double (1 / 10), periodInMinutes = intervalMinutes\<rparr>
                    (alarms_clear ALARM_NAME w)))"

subsection \<open>Reading the log\<close>

text \<open>
  The calls made between two states, and among a list of calls the notifications
  created, the values written under one key of \<open>chrome.storage.local\<close>, and the calls
  on the alarms.
\<close>

definition calls_since :: "world \<Rightarrow> world \<Rightarrow> call list" where
  "calls_since w w' = drop (length (calls w)) (calls w')"

fun notifications_in :: "call list \<Rightarrow> (string \<times> notification) list" where
  "notifications_in [] = []"
| "notifications_in (NotificationsCreate i n # cs) = (i, n) # notifications_in cs"
| "notifications_in (c # cs) = notifications_in cs"

fun writes_to :: "string \<Rightarrow> call list \<Rightarrow> stored list" where
  "writes_to k [] = []"
| "writes_to k (LocalSet k' v # cs) = (if k' = k then v # writes_to k cs else writes_to k cs)"
| "writes_to k (c # cs) = writes_to k cs"

fun is_fingerprints :: "stored \<Rightarrow> bool" where
  "is_fingerprints (Fingerprints fs) = True"
| "is_fingerprints v = False"

fun fingerprint_writes :: "call list \<Rightarrow> (string \<times> stored) list" where
  "fingerprint_writes [] = []"
| "fingerprint_writes (LocalSet k v # cs) =
     (if is_fingerprints v \<or> take 13 k = ''fingerprints_''
      then (k, v) # fingerprint_writes cs else fingerprint_writes cs)"
| "fingerprint_writes (c # cs) = fingerprint_writes cs"

subsection \<open>Sample data\<close>

text \<open>
  Concrete alerts, states and environments on which the theorems below are run: an alert
  with the usual labels and a summary, a browser state with nothing stored, one where
  the instance \<open>am1\<close> already knows the fingerprint \<open>old\<close>, one that also holds a cache
  and a badge, one with an alarm already set, an alert whose summary is the empty string,
  and an environment whose settings hold one instance, active, and whose network gives a
  fixed answer.
\<close>

definition mk_alert :: "string \<Rightarrow> string \<Rightarrow> string \<Rightarrow> alert" where
  "mk_alert fp sev st =
     \<lparr>fingerprint = fp,
      labels = Some [(''alertname'', ''HighLoad''), (''severity'', sev)],
      annotations = Some [(''summary'', ''load is high'')],
      alert_status = Some \<lparr>state = Some st, silencedBy = [], inhibitedBy = []\<rparr>\<rparr>"

definition fresh_world :: world where
  "fresh_world =
     \<lparr>badgeText = [], badgeBackgroundColor = [], badgeTextColor = [],
      knownFingerprints = Map.empty, cachedAlerts = Map.empty, cachedSilences = Map.empty,
      alarms = [], calls = []\<rparr>"

definition warm_world :: world where
  "warm_world = fresh_world\<lparr>knownFingerprints := [''am1'' \<mapsto> [''old'']]\<rparr>"

definition example_instance :: am_instance where
  "example_instance =
     \<lparr>inst_id = ''am1'', inst_name = ''prod'', inst_url = ''http://am:9093/'',
      authType = ''none'', username = None, password = None, token = None\<rparr>"

definition example_env :: "bool \<Rightarrow> rat \<Rightarrow> alert list fetched \<Rightarrow> env" where
  "example_env notify interval answer =
     \<lparr>sync_reads = (\<lambda>k. Inr (Some
        \<lparr>s_instances = Some [example_instance], s_activeInstanceId = Some (Some ''am1''),
         s_pollInterval = Some interval, s_enableNotifications = Some notify,
         s_enableBadge = None, s_theme = None, s_defaultFilter = None\<rparr>)),
      href = (\<lambda>s ops. Some s),
      btoa = (\<lambda>s. s),
      fetch_alerts = (\<lambda>u h. answer),
      fetch_silences = (\<lambda>u h. Response True 200 ''OK'' (Inr [])),
      now = (\<lambda>k. 1000 + k),
      getURL = (\<lambda>p. ''chrome-extension://x/'' @ p)\<rparr>"

definition six_alerts :: "alert list" where
  "six_alerts =
     [mk_alert ''f1'' ''critical'' ''active'', mk_alert ''f2'' ''warning'' ''active'',
      mk_alert ''f3'' ''info'' ''active'', mk_alert ''f4'' ''warning'' ''suppressed'',
      mk_alert ''f5'' ''info'' ''active'', mk_alert ''old'' ''critical'' ''active'',
      mk_alert ''f6'' ''critical'' ''active'', mk_alert ''f7'' ''none'' ''active'']"

definition cached_world :: world where
  "cached_world =
     warm_world\<lparr>badgeText := ''1'', badgeBackgroundColor := ''#dc2626'',
       cachedAlerts := [''am1'' \<mapsto> ([mk_alert ''old'' ''critical'' ''active''], 900)]\<rparr>"

definition armed_world :: world where
  "armed_world =
     fresh_world\<lparr>alarms :=
       [(ALARM_NAME, \<lparr>delayInMinutes = double (1 / 10), periodInMinutes = 5\<rparr>)]\<rparr>"

definition blank_summary_alert :: alert where
  "blank_summary_alert =
     \<lparr>fingerprint = ''f9'',
      labels = Some [(''alertname'', ''DiskFull''), (''severity'', ''critical'')],
      annotations = Some [(''summary'', [])],
      alert_status = Some \<lparr>state = Some ''active'', silencedBy = [], inhibitedBy = []\<rparr>\<rparr>"

section \<open>Properties\<close>

subsection \<open>URL normalisation\<close>

lemma all_slashes_iff: "all_slashes cs \<longleftrightarrow> cs = replicate (length cs) CHR ''/''"
  by (induction cs) auto

lemma all_slashes_set: "all_slashes cs \<longleftrightarrow> (\<forall>x\<in>set cs. x = CHR ''/'')"
  by (induction cs) auto

lemma normalizeUrl_all_slashes: "all_slashes cs \<Longrightarrow> normalizeUrl cs = []"
  by (cases cs) auto

lemma dropWhile_rev_slashes:
  "dropWhile (\<lambda>c. c = CHR ''/'') (rev cs) = [] \<longleftrightarrow> all_slashes cs"
  by (induction cs) (auto simp: dropWhile_append)

text \<open>The leftmost match of the pattern is the longest suffix of slashes.\<close>

lemma normalizeUrl_dropWhile:
  "normalizeUrl u = rev (dropWhile (\<lambda>c. c = CHR ''/'') (rev u))"
proof (induction u)
  case Nil
  then show ?case by simp
next
  case (Cons c cs)
  show ?case
  proof (cases "all_slashes cs")
    case True
    then show ?thesis
      using Cons by (simp add: dropWhile_append dropWhile_rev_slashes normalizeUrl_all_slashes)
  next
    case False
    then show ?thesis
      using Cons by (auto simp add: dropWhile_append all_slashes_set)
  qed
qed

lemma normalizeUrl_append_slashes:
  "normalizeUrl (u @ replicate n CHR ''/'') = normalizeUrl u"
  by (simp add: normalizeUrl_dropWhile dropWhile_append)

lemma normalizeUrl_idem: "normalizeUrl (normalizeUrl u) = normalizeUrl u"
  by (simp add: normalizeUrl_dropWhile)

lemma normalizeUrl_decomp: "\<exists>n. u = normalizeUrl u @ replicate n CHR ''/''"
proof (induction u)
  case Nil
  then show ?case by simp
next
  case (Cons c cs)
  show ?case
  proof (cases "c = CHR ''/'' \<and> all_slashes cs")
    case True
    then have "c # cs = replicate (Suc (length cs)) CHR ''/''"
      using all_slashes_iff by auto
    then show ?thesis using True by (metis append_Nil normalizeUrl.simps(2))
  next
    case False
    then show ?thesis using Cons by auto
  qed
qed

lemma normalizeUrl_no_trailing: "normalizeUrl u \<noteq> v @ ''/''"
proof
  assume "normalizeUrl u = v @ ''/''"
  then have "dropWhile (\<lambda>c. c = CHR ''/'') (rev u) = CHR ''/'' # rev v"
    by (metis normalizeUrl_dropWhile rev_rev_ident rev_append rev.simps append_Cons append_Nil)
  then show False
    by (metis (full_types) hd_dropWhile list.sel(1) list.distinct(1))
qed

lemma buildHeaders_inst_url:
  "buildHeaders b (inst\<lparr>inst_url := x\<rparr>) = buildHeaders b inst"
  by (simp add: buildHeaders_def Let_def cong: if_cong)

text \<open>
  Claim C10. \<open>_normalizeUrl\<close> is idempotent and strips all the trailing slashes: what it
  removes is a run of slashes at the end, what it returns does not end in a slash, and
  slashes added at the end change nothing. Hence the URL that \<open>getAlerts\<close> builds, and
  with it the whole request, is the same for an instance URL with trailing slashes as
  for that URL without them.
\<close>

theorem normalizeUrl_strips_trailing_slashes:
  "normalizeUrl (normalizeUrl u) = normalizeUrl u
   \<and> (\<exists>k. u = normalizeUrl u @ replicate k CHR ''/'')
   \<and> normalizeUrl u \<noteq> v @ ''/''
   \<and> normalizeUrl (u @ replicate n CHR ''/'') = normalizeUrl u
   \<and> alerts_url env (inst\<lparr>inst_url := u @ replicate n CHR ''/''\<rparr>) f
       = alerts_url env (inst\<lparr>inst_url := u\<rparr>) f
   \<and> getAlerts env (inst\<lparr>inst_url := u @ replicate n CHR ''/''\<rparr>) f
       = getAlerts env (inst\<lparr>inst_url := u\<rparr>) f"
  using normalizeUrl_decomp [of u]
  by (simp add: normalizeUrl_idem normalizeUrl_no_trailing normalizeUrl_append_slashes
      alerts_url_def getAlerts_def buildHeaders_inst_url split: option.split)

subsection \<open>The badge\<close>

lemma getBadgeColor_empty: "getBadgeColor (Some []) = ''#4ade80''"
  by (simp add: getBadgeColor_def)

lemma getBadgeColor_critical:
  "list_ex (\<lambda>a. label a ''severity'' = Some ''critical'' \<and> is_active a) alerts
   \<Longrightarrow> getBadgeColor (Some alerts) = ''#dc2626''"
  by (auto simp: getBadgeColor_def Let_def list_ex_iff)

lemma getBadgeColor_warning:
  "\<not> list_ex (\<lambda>a. label a ''severity'' = Some ''critical'' \<and> is_active a) alerts
   \<Longrightarrow> list_ex (\<lambda>a. label a ''severity'' = Some ''warning'' \<and> is_active a) alerts
   \<Longrightarrow> getBadgeColor (Some alerts) = ''#d97706''"
  by (auto simp: getBadgeColor_def Let_def list_ex_iff)

lemma mk_alert_simps [simp]:
  "fingerprint (mk_alert fp sev st) = fp"
  "is_active (mk_alert fp sev st) = (st = ''active'')"
  "label (mk_alert fp sev st) ''severity'' = Some sev"
  "label (mk_alert fp sev st) ''alertname'' = Some ''HighLoad''"
  "annotation (mk_alert fp sev st) ''summary'' = Some ''load is high''"
  by (simp_all add: mk_alert_def is_active_def status_state_def label_def annotation_def)

text \<open>
  Claim C9. \<open>Utils.getBadgeColor\<close> returns the green of "all clear" only for an absent or
  empty list; for a list that is not empty and holds no active alert, whatever the
  severities, it returns the blue.
\<close>

theorem getBadgeColor_green_iff_empty:
  "(getBadgeColor arg = ''#4ade80'' \<longleftrightarrow> arg = None \<or> arg = Some [])
   \<and> (alerts \<noteq> [] \<and> \<not> list_ex is_active alerts
        \<longrightarrow> getBadgeColor (Some alerts) = ''#2563eb'')"
  by (auto simp: getBadgeColor_def Let_def list_ex_iff split: option.splits)

theorem getBadgeColor_green_iff_empty_witness:
  "getBadgeColor None = ''#4ade80''
   \<and> getBadgeColor (Some []) = ''#4ade80''
   \<and> getBadgeColor (Some [mk_alert ''f1'' ''critical'' ''suppressed'',
                           mk_alert ''f2'' ''warning'' ''unprocessed'']) = ''#2563eb''"
  using getBadgeColor_green_iff_empty
          [of None "[mk_alert ''f1'' ''critical'' ''suppressed'',
                     mk_alert ''f2'' ''warning'' ''unprocessed'']"]
        getBadgeColor_green_iff_empty [of "Some []" "[]"]
  by simp

lemma calls_updateBadge:
  "calls (updateBadge alerts enabled w) = calls w @
     (if \<not> enabled then [SetBadgeText []]
      else [SetBadgeText (if countActiveAlerts alerts > 0
                          then string_of_nat (countActiveAlerts alerts) else []),
            SetBadgeBackgroundColor (getBadgeColor (Some alerts)),
            SetBadgeTextColor ''#FFFFFF''])"
  by (simp add: updateBadge_def setBadgeText_def setBadgeBackgroundColor_def
      setBadgeTextColor_def logged_def Let_def)

lemma badgeText_updateBadge:
  "badgeText (updateBadge alerts enabled w) =
     (if enabled \<and> countActiveAlerts alerts > 0
      then string_of_nat (countActiveAlerts alerts) else [])"
  by (simp add: updateBadge_def setBadgeText_def setBadgeBackgroundColor_def
      setBadgeTextColor_def logged_def Let_def)

lemma badgeBackgroundColor_updateBadge:
  "badgeBackgroundColor (updateBadge alerts enabled w) =
     (if enabled then getBadgeColor (Some alerts) else badgeBackgroundColor w)"
  by (simp add: updateBadge_def setBadgeText_def setBadgeBackgroundColor_def
      setBadgeTextColor_def logged_def Let_def)

text \<open>
  Claim C5. The badge that \<open>updateBadge\<close> sets depends on the alert list and the flag
  only: the text set and the calls made are the same from any two states. With the flag
  off the text is empty. With the flag on the text is the number of alerts whose state
  is active, written in decimal, and empty when that number is zero; the colour is the
  red when some active alert has severity critical, else the amber when some active
  alert has severity warning, and the green when there is no alert at all.
\<close>

theorem updateBadge_text_and_color:
  "badgeText (updateBadge alerts False w) = []
   \<and> badgeText (updateBadge alerts True w) =
       (if length (filter is_active alerts) = 0 then []
        else string_of_nat (length (filter is_active alerts)))
   \<and> (list_ex (\<lambda>a. label a ''severity'' = Some ''critical'' \<and> is_active a) alerts
        \<longrightarrow> badgeBackgroundColor (updateBadge alerts True w) = ''#dc2626'')
   \<and> (\<not> list_ex (\<lambda>a. label a ''severity'' = Some ''critical'' \<and> is_active a) alerts
        \<and> list_ex (\<lambda>a. label a ''severity'' = Some ''warning'' \<and> is_active a) alerts
        \<longrightarrow> badgeBackgroundColor (updateBadge alerts True w) = ''#d97706'')
   \<and> (alerts = [] \<longrightarrow> badgeBackgroundColor (updateBadge alerts True w) = ''#4ade80'')
   \<and> badgeText (updateBadge alerts enabled w) = badgeText (updateBadge alerts enabled w')
   \<and> calls_since w (updateBadge alerts enabled w)
       = calls_since w' (updateBadge alerts enabled w')"
  by (simp add: badgeText_updateBadge badgeBackgroundColor_updateBadge
      getBadgeColor_critical getBadgeColor_warning getBadgeColor_empty calls_updateBadge
      calls_since_def countActiveAlerts_def)

theorem updateBadge_text_and_color_witness:
  "badgeText (updateBadge [mk_alert ''f1'' ''critical'' ''active'',
                           mk_alert ''f2'' ''warning'' ''active'',
                           mk_alert ''f3'' ''critical'' ''suppressed''] True fresh_world) = ''2''
   \<and> badgeBackgroundColor (updateBadge [mk_alert ''f1'' ''critical'' ''active'',
                           mk_alert ''f2'' ''warning'' ''active'',
                           mk_alert ''f3'' ''critical'' ''suppressed''] True fresh_world)
       = ''#dc2626''
   \<and> badgeBackgroundColor (updateBadge [mk_alert ''f2'' ''warning'' ''active'',
                           mk_alert ''f3'' ''critical'' ''suppressed''] True fresh_world)
       = ''#d97706''
   \<and> badgeBackgroundColor (updateBadge [] True fresh_world) = ''#4ade80''
   \<and> badgeText (updateBadge [] True fresh_world) = []"
  using updateBadge_text_and_color
          [of "[mk_alert ''f1'' ''critical'' ''active'', mk_alert ''f2'' ''warning'' ''active'',
                mk_alert ''f3'' ''critical'' ''suppressed'']" fresh_world True fresh_world]
        updateBadge_text_and_color
          [of "[mk_alert ''f2'' ''warning'' ''active'',
                mk_alert ''f3'' ''critical'' ''suppressed'']" fresh_world True fresh_world]
        updateBadge_text_and_color [of "[]" fresh_world True fresh_world]
  by (simp add: string_of_nat.simps digit_char_def)

subsection \<open>The notification check\<close>

lemmas port_defs = logged_def setBadgeText_def setBadgeBackgroundColor_def
  setBadgeTextColor_def notifications_create_def console_error_def alarms_clear_def
  alarms_create_def cacheAlerts_def cacheSilences_def setKnownFingerprints_def

lemma fold_notify_alert:
  "fold (notify_alert env) xs w =
     w\<lparr>calls := calls w @
          map (\<lambda>a. NotificationsCreate (NOTIFICATION_ID_PREFIX @ fingerprint a)
                     (alert_notification env a)) xs\<rparr>"
  by (induction xs arbitrary: w)
     (simp_all add: notify_alert_def notifications_create_def logged_def)

lemma notifications_in_append:
  "notifications_in (xs @ ys) = notifications_in xs @ notifications_in ys"
  by (induction xs rule: notifications_in.induct) simp_all

lemma notifications_in_creates:
  "notifications_in (map (\<lambda>a. NotificationsCreate (f a) (g a)) xs) = map (\<lambda>a. (f a, g a)) xs"
  by (induction xs) simp_all

lemma writes_to_append: "writes_to k (xs @ ys) = writes_to k xs @ writes_to k ys"
  by (induction k xs rule: writes_to.induct) simp_all

lemma writes_to_creates:
  "writes_to k (map (\<lambda>a. NotificationsCreate (f a) (g a)) xs) = []"
  by (induction xs) simp_all

lemma fingerprint_writes_append:
  "fingerprint_writes (xs @ ys) = fingerprint_writes xs @ fingerprint_writes ys"
  by (induction xs rule: fingerprint_writes.induct) simp_all

text \<open>What one notification check does to the state: the loop is unrolled.\<close>

lemma checkForNewAlerts_state:
  "checkForNewAlerts env i alerts w =
     w\<lparr>knownFingerprints := (knownFingerprints w)(i \<mapsto> map fingerprint alerts),
       calls := calls w @
         (let known = getKnownFingerprints i w; newAlerts = new_alerts known alerts
          in if newAlerts \<noteq> [] \<and> known \<noteq> []
             then map (\<lambda>a. NotificationsCreate (NOTIFICATION_ID_PREFIX @ fingerprint a)
                              (alert_notification env a)) (take 5 newAlerts)
                  @ (if length newAlerts > 5
                     then [NotificationsCreate (NOTIFICATION_ID_PREFIX @ ''batch'')
                             (batch_notification env (length newAlerts))]
                     else [])
             else [])
         @ [LocalSet (fingerprints_key i) (Fingerprints (map fingerprint alerts))]\<rparr>"
  by (simp add: checkForNewAlerts_def Let_def fold_notify_alert port_defs
      getKnownFingerprints_def)

lemma warm_world_known [simp]: "getKnownFingerprints ''am1'' warm_world = [''old'']"
  by (simp add: getKnownFingerprints_def warm_world_def)

lemma fresh_world_known [simp]: "getKnownFingerprints i fresh_world = []"
  by (simp add: getKnownFingerprints_def fresh_world_def)

text \<open>
  Claim C2. Cold start: when the list stored for the instance is empty and the fetch
  holds at least one active alert, the check creates no notification, and the list
  stored afterwards is the list of the fingerprints of the fetched alerts.
\<close>

theorem cold_start_suppression:
  assumes "getKnownFingerprints i w = []" and "0 < countActiveAlerts alerts"
  shows "notifications_in (calls_since w (checkForNewAlerts env i alerts w)) = []
         \<and> getKnownFingerprints i (checkForNewAlerts env i alerts w) = map fingerprint alerts"
  using assms by (simp add: checkForNewAlerts_state calls_since_def getKnownFingerprints_def)

theorem cold_start_suppression_witness:
  "getKnownFingerprints ''am1'' fresh_world = []
   \<and> countActiveAlerts [mk_alert ''f1'' ''critical'' ''active'',
                         mk_alert ''f2'' ''warning'' ''active''] = 2
   \<and> notifications_in (calls_since fresh_world
        (checkForNewAlerts (example_env True 30 Aborted) ''am1''
           [mk_alert ''f1'' ''critical'' ''active'', mk_alert ''f2'' ''warning'' ''active'']
           fresh_world)) = []
   \<and> getKnownFingerprints ''am1''
        (checkForNewAlerts (example_env True 30 Aborted) ''am1''
           [mk_alert ''f1'' ''critical'' ''active'', mk_alert ''f2'' ''warning'' ''active'']
           fresh_world)
       = [''f1'', ''f2'']"
  using cold_start_suppression [of "''am1''" fresh_world
           "[mk_alert ''f1'' ''critical'' ''active'', mk_alert ''f2'' ''warning'' ''active'']"
           "example_env True 30 Aborted"]
  by (simp add: countActiveAlerts_def)

text \<open>
  Claim C3. Batching: when the list stored for the instance is not empty, a check with
  exactly five new active alerts creates exactly their five notifications, in the order
  of the fetch, and no batch notification; a check with more than five creates the
  notifications of the first five and then exactly one batch notification, whose message
  starts with the number of new alerts.
\<close>

theorem batching_threshold:
  assumes "getKnownFingerprints i w \<noteq> []"
    and "newAlerts = new_alerts (getKnownFingerprints i w) alerts"
  shows "(length newAlerts = 5 \<longrightarrow>
            notifications_in (calls_since w (checkForNewAlerts env i alerts w))
              = map (\<lambda>a. (NOTIFICATION_ID_PREFIX @ fingerprint a, alert_notification env a))
                  newAlerts)
         \<and> (5 < length newAlerts \<longrightarrow>
            notifications_in (calls_since w (checkForNewAlerts env i alerts w))
              = map (\<lambda>a. (NOTIFICATION_ID_PREFIX @ fingerprint a, alert_notification env a))
                  (take 5 newAlerts)
                @ [(NOTIFICATION_ID_PREFIX @ ''batch'',
                    batch_notification env (length newAlerts))]
            \<and> message (batch_notification env (length newAlerts))
                = string_of_nat (length newAlerts) @ '' new alerts detected'')"
  using assms
  by (auto simp add: checkForNewAlerts_state Let_def notifications_in_append
      notifications_in_creates batch_notification_def calls_since_def)

theorem batching_threshold_witness:
  "getKnownFingerprints ''am1'' warm_world = [''old'']
   \<and> map fingerprint (new_alerts [''old''] (take 7 six_alerts))
       = [''f1'', ''f2'', ''f3'', ''f5'', ''f6'']
   \<and> map fst (notifications_in (calls_since warm_world
         (checkForNewAlerts (example_env True 30 Aborted) ''am1'' (take 7 six_alerts)
            warm_world)))
       = [''am-alert-f1'', ''am-alert-f2'', ''am-alert-f3'', ''am-alert-f5'', ''am-alert-f6'']
   \<and> map fingerprint (new_alerts [''old''] six_alerts)
       = [''f1'', ''f2'', ''f3'', ''f5'', ''f6'', ''f7'']
   \<and> map fst (notifications_in (calls_since warm_world
         (checkForNewAlerts (example_env True 30 Aborted) ''am1'' six_alerts warm_world)))
       = [''am-alert-f1'', ''am-alert-f2'', ''am-alert-f3'', ''am-alert-f5'', ''am-alert-f6'',
          ''am-alert-batch'']
   \<and> message (batch_notification (example_env True 30 Aborted) 6) = ''6 new alerts detected''"
proof -
  have five: "new_alerts [''old''] (take 7 six_alerts) =
      [mk_alert ''f1'' ''critical'' ''active'', mk_alert ''f2'' ''warning'' ''active'',
       mk_alert ''f3'' ''info'' ''active'', mk_alert ''f5'' ''info'' ''active'',
       mk_alert ''f6'' ''critical'' ''active'']"
    by (simp add: new_alerts_def six_alerts_def)
  have six: "new_alerts [''old''] six_alerts =
      [mk_alert ''f1'' ''critical'' ''active'', mk_alert ''f2'' ''warning'' ''active'',
       mk_alert ''f3'' ''info'' ''active'', mk_alert ''f5'' ''info'' ''active'',
       mk_alert ''f6'' ''critical'' ''active'', mk_alert ''f7'' ''none'' ''active'']"
    by (simp add: new_alerts_def six_alerts_def)
  have a: "notifications_in (calls_since warm_world
         (checkForNewAlerts (example_env True 30 Aborted) ''am1'' (take 7 six_alerts)
            warm_world))
       = map (\<lambda>a. (NOTIFICATION_ID_PREFIX @ fingerprint a,
                    alert_notification (example_env True 30 Aborted) a))
           (new_alerts [''old''] (take 7 six_alerts))"
    using batching_threshold [of "''am1''" warm_world "new_alerts [''old''] (take 7 six_alerts)"
          "take 7 six_alerts" "example_env True 30 Aborted"]
    by (simp add: five)
  have b: "notifications_in (calls_since warm_world
         (checkForNewAlerts (example_env True 30 Aborted) ''am1'' six_alerts warm_world))
       = map (\<lambda>a. (NOTIFICATION_ID_PREFIX @ fingerprint a,
                    alert_notification (example_env True 30 Aborted) a))
           (take 5 (new_alerts [''old''] six_alerts))
         @ [(NOTIFICATION_ID_PREFIX @ ''batch'',
             batch_notification (example_env True 30 Aborted)
               (length (new_alerts [''old''] six_alerts)))]"
    using batching_threshold [of "''am1''" warm_world "new_alerts [''old''] six_alerts"
          six_alerts "example_env True 30 Aborted"]
    by (simp add: six)
  show ?thesis
    using b by (simp add: a five six NOTIFICATION_ID_PREFIX_def batch_notification_def
        string_of_nat.simps digit_char_def)
qed

lemma blank_summary_alert_simps [simp]:
  "fingerprint blank_summary_alert = ''f9''"
  "is_active blank_summary_alert"
  "label blank_summary_alert ''severity'' = Some ''critical''"
  "label blank_summary_alert ''alertname'' = Some ''DiskFull''"
  "annotation blank_summary_alert ''summary'' = Some []"
  by (simp_all add: blank_summary_alert_def is_active_def status_state_def label_def
      annotation_def)

lemma calls_checkForNewAlerts:
  "calls (checkForNewAlerts env i alerts w) = calls w @
         (let known = getKnownFingerprints i w; newAlerts = new_alerts known alerts
          in if newAlerts \<noteq> [] \<and> known \<noteq> []
             then map (\<lambda>a. NotificationsCreate (NOTIFICATION_ID_PREFIX @ fingerprint a)
                              (alert_notification env a)) (take 5 newAlerts)
                  @ (if length newAlerts > 5
                     then [NotificationsCreate (NOTIFICATION_ID_PREFIX @ ''batch'')
                             (batch_notification env (length newAlerts))]
                     else [])
             else [])
         @ [LocalSet (fingerprints_key i) (Fingerprints (map fingerprint alerts))]"
  by (simp add: checkForNewAlerts_state)

text \<open>
  Claim C7, as the code has it. The notification created for a new alert has priority 2
  exactly when the severity label is \<open>critical\<close>, and priority 1 otherwise; its title is
  the severity in upper case between brackets, then the alert name (\<open>unknown\<close> and
  \<open>Alert\<close> standing for a label that is absent or empty); its message is the summary
  annotation when that is present and not empty, and \<open>New alert fired\<close> otherwise. The
  notifications a check creates for the first five new alerts are these.
\<close>

theorem alert_notification_fields:
  "priority (alert_notification env a) = (if label a ''severity'' = Some ''critical'' then 2 else 1)
   \<and> title (alert_notification env a) =
       ''['' @ toUpperCase (or_default (label a ''severity'') ''unknown'') @ ''] ''
         @ or_default (label a ''alertname'') ''Alert''
   \<and> message (alert_notification env a) =
       (case annotation a ''summary'' of
          None \<Rightarrow> ''New alert fired''
        | Some s \<Rightarrow> if s = [] then ''New alert fired'' else s)
   \<and> (getKnownFingerprints i w \<noteq> [] \<longrightarrow>
        take 5 (notifications_in (calls_since w (checkForNewAlerts env i alerts w)))
          = map (\<lambda>a. (NOTIFICATION_ID_PREFIX @ fingerprint a, alert_notification env a))
              (take 5 (new_alerts (getKnownFingerprints i w) alerts)))"
  by (auto simp add: alert_notification_def Let_def or_default_def calls_checkForNewAlerts
      calls_since_def notifications_in_append notifications_in_creates
      split: option.splits)

theorem alert_notification_fields_witness:
  "getKnownFingerprints ''am1'' warm_world \<noteq> []
   \<and> notifications_in (calls_since warm_world
        (checkForNewAlerts (example_env True 30 Aborted) ''am1''
           [blank_summary_alert, mk_alert ''f2'' ''warning'' ''active''] warm_world))
     = [(''am-alert-f9'',
         \<lparr>ntype = ''basic'', iconUrl = ''chrome-extension://x/icons/icon128.png'',
          title = ''[CRITICAL] DiskFull'', message = ''New alert fired'', priority = 2\<rparr>),
        (''am-alert-f2'',
         \<lparr>ntype = ''basic'', iconUrl = ''chrome-extension://x/icons/icon128.png'',
          title = ''[WARNING] HighLoad'', message = ''load is high'', priority = 1\<rparr>)]"
proof -
  let ?env = "example_env True 30 Aborted"
  let ?alerts = "[blank_summary_alert, mk_alert ''f2'' ''warning'' ''active'']"
  have n: "new_alerts [''old''] ?alerts = ?alerts"
    by (simp add: new_alerts_def)
  have all: "notifications_in
               (calls_since warm_world (checkForNewAlerts ?env ''am1'' ?alerts warm_world))
      = take 5 (notifications_in
               (calls_since warm_world (checkForNewAlerts ?env ''am1'' ?alerts warm_world)))"
    by (simp add: calls_checkForNewAlerts calls_since_def n Let_def)
  have icon: "iconUrl (alert_notification ?env a) = ''chrome-extension://x/icons/icon128.png''"
    "ntype (alert_notification ?env a) = ''basic''" for a
    by (simp_all add: alert_notification_def Let_def example_env_def)
  have eq: "n1 = n2" if "ntype n1 = ntype n2" "iconUrl n1 = iconUrl n2" "title n1 = title n2"
    "message n1 = message n2" "priority n1 = priority n2" for n1 n2 :: notification
    using that by simp
  show ?thesis
    using alert_notification_fields [of ?env blank_summary_alert "''am1''" warm_world ?alerts]
      alert_notification_fields [of ?env "mk_alert ''f2'' ''warning'' ''active''" "''am1''"
        warm_world ?alerts]
    by (subst all) (auto simp add: n icon NOTIFICATION_ID_PREFIX_def toUpperCase_def
        upper_char_def or_default_def intro!: eq)
qed

text \<open>
  Claim C7, as stated, at an alert whose summary annotation is present and is the empty
  string: the message of its notification is \<open>New alert fired\<close>, not the summary.
\<close>

theorem empty_summary_gets_fallback:
  "annotation blank_summary_alert ''summary'' = Some []
   \<and> map (message \<circ> snd)
        (notifications_in (calls_since warm_world
           (checkForNewAlerts (example_env True 30 Aborted) ''am1'' [blank_summary_alert]
              warm_world)))
       = [''New alert fired'']"
  by (simp add: calls_checkForNewAlerts calls_since_def new_alerts_def Let_def
      alert_notification_def or_default_def)

subsection \<open>The poll cycle\<close>

text \<open>
  The keys of \<open>chrome.storage.local\<close>: the three families are disjoint and each key
  determines the instance id.
\<close>

lemma local_keys_distinct [simp]:
  "alerts_key i \<noteq> fingerprints_key j"
  "silences_key i \<noteq> fingerprints_key j"
  "alerts_key i \<noteq> silences_key j"
  "fingerprints_key i = fingerprints_key j \<longleftrightarrow> i = j"
  "alerts_key i = alerts_key j \<longleftrightarrow> i = j"
  "silences_key i = silences_key j \<longleftrightarrow> i = j"
  by (simp_all add: alerts_key_def silences_key_def fingerprints_key_def)

lemma not_fingerprints_prefix [simp]:
  "take 13 (alerts_key i) \<noteq> ''fingerprints_''"
  "take 13 (silences_key i) \<noteq> ''fingerprints_''"
  by (simp_all add: alerts_key_def silences_key_def)

text \<open>What each step leaves and what it changes.\<close>

lemma cacheAlerts_fields [simp]:
  "knownFingerprints (cacheAlerts i t a w) = knownFingerprints w"
  "cachedAlerts (cacheAlerts i t a w) = (cachedAlerts w)(i \<mapsto> (a, t))"
  "cachedSilences (cacheAlerts i t a w) = cachedSilences w"
  "alarms (cacheAlerts i t a w) = alarms w"
  "calls (cacheAlerts i t a w) = calls w @ [LocalSet (alerts_key i) (CachedAlerts a t)]"
  by (simp_all add: cacheAlerts_def logged_def)

lemma cacheSilences_fields [simp]:
  "knownFingerprints (cacheSilences i t s w) = knownFingerprints w"
  "cachedAlerts (cacheSilences i t s w) = cachedAlerts w"
  "cachedSilences (cacheSilences i t s w) = (cachedSilences w)(i \<mapsto> (s, t))"
  "badgeText (cacheSilences i t s w) = badgeText w"
  "badgeBackgroundColor (cacheSilences i t s w) = badgeBackgroundColor w"
  "badgeTextColor (cacheSilences i t s w) = badgeTextColor w"
  "alarms (cacheSilences i t s w) = alarms w"
  "calls (cacheSilences i t s w) = calls w @ [LocalSet (silences_key i) (CachedSilences s t)]"
  by (simp_all add: cacheSilences_def logged_def)

lemma console_error_fields [simp]:
  "knownFingerprints (console_error p m w) = knownFingerprints w"
  "cachedAlerts (console_error p m w) = cachedAlerts w"
  "cachedSilences (console_error p m w) = cachedSilences w"
  "badgeText (console_error p m w) = badgeText w"
  "badgeBackgroundColor (console_error p m w) = badgeBackgroundColor w"
  "badgeTextColor (console_error p m w) = badgeTextColor w"
  "alarms (console_error p m w) = alarms w"
  "calls (console_error p m w) = calls w @ [ConsoleError p m]"
  by (simp_all add: console_error_def logged_def)

lemma setBadge_fields [simp]:
  "knownFingerprints (setBadgeText t w) = knownFingerprints w"
  "cachedAlerts (setBadgeText t w) = cachedAlerts w"
  "cachedSilences (setBadgeText t w) = cachedSilences w"
  "badgeText (setBadgeText t w) = t"
  "badgeBackgroundColor (setBadgeText t w) = badgeBackgroundColor w"
  "badgeTextColor (setBadgeText t w) = badgeTextColor w"
  "calls (setBadgeText t w) = calls w @ [SetBadgeText t]"
  "knownFingerprints (setBadgeBackgroundColor c w) = knownFingerprints w"
  "cachedAlerts (setBadgeBackgroundColor c w) = cachedAlerts w"
  "cachedSilences (setBadgeBackgroundColor c w) = cachedSilences w"
  "badgeText (setBadgeBackgroundColor c w) = badgeText w"
  "badgeBackgroundColor (setBadgeBackgroundColor c w) = c"
  "badgeTextColor (setBadgeBackgroundColor c w) = badgeTextColor w"
  "calls (setBadgeBackgroundColor c w) = calls w @ [SetBadgeBackgroundColor c]"
  "knownFingerprints (setBadgeTextColor c w) = knownFingerprints w"
  "cachedAlerts (setBadgeTextColor c w) = cachedAlerts w"
  "cachedSilences (setBadgeTextColor c w) = cachedSilences w"
  "badgeText (setBadgeTextColor c w) = badgeText w"
  "badgeBackgroundColor (setBadgeTextColor c w) = badgeBackgroundColor w"
  "badgeTextColor (setBadgeTextColor c w) = c"
  "calls (setBadgeTextColor c w) = calls w @ [SetBadgeTextColor c]"
  by (simp_all add: setBadgeText_def setBadgeBackgroundColor_def setBadgeTextColor_def
      logged_def)

lemma updateBadge_fields [simp]:
  "knownFingerprints (updateBadge a e w) = knownFingerprints w"
  "cachedAlerts (updateBadge a e w) = cachedAlerts w"
  "cachedSilences (updateBadge a e w) = cachedSilences w"
  "alarms (updateBadge a e w) = alarms w"
  by (simp_all add: updateBadge_def Let_def setBadgeText_def setBadgeBackgroundColor_def
      setBadgeTextColor_def logged_def)

lemma checkForNewAlerts_fields [simp]:
  "knownFingerprints (checkForNewAlerts env i a w)
     = (knownFingerprints w)(i \<mapsto> map fingerprint a)"
  "cachedAlerts (checkForNewAlerts env i a w) = cachedAlerts w"
  "cachedSilences (checkForNewAlerts env i a w) = cachedSilences w"
  "badgeText (checkForNewAlerts env i a w) = badgeText w"
  "badgeBackgroundColor (checkForNewAlerts env i a w) = badgeBackgroundColor w"
  "badgeTextColor (checkForNewAlerts env i a w) = badgeTextColor w"
  "alarms (checkForNewAlerts env i a w) = alarms w"
  by (simp_all add: checkForNewAlerts_state)

lemma getKnownFingerprints_frame [simp]:
  "getKnownFingerprints i (cacheAlerts j t a w) = getKnownFingerprints i w"
  "getKnownFingerprints i (updateBadge a e w) = getKnownFingerprints i w"
  "getKnownFingerprints i (checkForNewAlerts env i a w) = map fingerprint a"
  "getKnownFingerprints i (cacheSilences j t s w) = getKnownFingerprints i w"
  "getKnownFingerprints i (console_error p m w) = getKnownFingerprints i w"
  by (simp_all add: getKnownFingerprints_def)

text \<open>The sample environment: what its reads and its requests answer.\<close>

lemma example_env_reads [simp]:
  "getSettings (sync_reads (example_env n iv ans) k) =
     Inr \<lparr>instances = [example_instance], activeInstanceId = Some ''am1'', pollInterval = iv,
          enableNotifications = n, enableBadge = True, theme = ''light'',
          defaultFilter = defaultFilter DEFAULT_SETTINGS\<rparr>"
  "getActiveInstance (sync_reads (example_env n iv ans) k) = Inr (Some example_instance)"
  "getAlerts (example_env n iv ans) example_instance f = api_fetch ans 10000"
  "getSilences (example_env n iv ans) example_instance = Inr []"
  "now (example_env n iv ans) k = 1000 + k"
  by (simp_all add: getActiveInstance_def getSettings_def merge_settings_def
      DEFAULT_SETTINGS_def example_env_def truthy_def example_instance_def getAlerts_def
      alerts_url_def getSilences_def api_fetch_def)

lemma example_instance_id [simp]: "inst_id example_instance = ''am1''"
  by (simp add: example_instance_def)

lemma api_fetch_simps [simp]:
  "api_fetch (Response True c t (Inr v)) n = Inr v"
  "api_fetch (Response False c t b) n = Inl (Error (''HTTP '' @ string_of_nat c @ '': '' @ t))"
  by (simp_all add: api_fetch_def)

text \<open>
  Claim C1. A poll cycle that reaches the notification check (an active instance, the
  settings read, the alerts fetched, notifications enabled) ends with the list of the
  fingerprints of the fetched alerts stored for the instance, whatever was stored
  before and whatever was notified; and the cycle writes the entry exactly once.
\<close>

theorem fingerprints_overwritten_once:
  assumes "getActiveInstance (sync_reads env 0) = Inr (Some inst)"
    and "getSettings (sync_reads env 1) = Inr settings"
    and "enableNotifications settings"
    and "getAlerts env inst (defaultFilter settings) = Inr alerts"
  shows "\<exists>w'. pollAlerts env w = Inr w'
           \<and> getKnownFingerprints (inst_id inst) w' = map fingerprint alerts
           \<and> set (getKnownFingerprints (inst_id inst) w') = fingerprint ` set alerts
           \<and> writes_to (fingerprints_key (inst_id inst)) (calls_since w w')
               = [Fingerprints (map fingerprint alerts)]"
  using assms
  by (simp add: pollAlerts_def Let_def calls_checkForNewAlerts calls_updateBadge
        calls_since_def writes_to_append writes_to_creates
        split: sum.split)

theorem fingerprints_overwritten_once_witness:
  "\<exists>w'. pollAlerts (example_env True 30 (Response True 200 ''OK''
              (Inr [mk_alert ''f1'' ''critical'' ''active'',
                    mk_alert ''f2'' ''warning'' ''suppressed''])))
            warm_world = Inr w'
        \<and> getKnownFingerprints ''am1'' warm_world = [''old'']
        \<and> getKnownFingerprints ''am1'' w' = [''f1'', ''f2'']
        \<and> writes_to (fingerprints_key ''am1'') (calls_since warm_world w')
            = [Fingerprints [''f1'', ''f2'']]"
  using fingerprints_overwritten_once
     [of "example_env True 30 (Response True 200 ''OK''
              (Inr [mk_alert ''f1'' ''critical'' ''active'',
                    mk_alert ''f2'' ''warning'' ''suppressed'']))"
         example_instance
         "\<lparr>instances = [example_instance], activeInstanceId = Some ''am1'', pollInterval = 30,
          enableNotifications = True, enableBadge = True, theme = ''light'',
          defaultFilter = defaultFilter DEFAULT_SETTINGS\<rparr>"
         "[mk_alert ''f1'' ''critical'' ''active'', mk_alert ''f2'' ''warning'' ''suppressed'']"
         warm_world]
  by auto

text \<open>
  Claim C4. A poll cycle whose alert fetch fails logs the failure, sets the badge to
  \<open>!\<close> on the grey \<open>#6b7280\<close> and stops there: these are all its calls. The stored
  fingerprints and the cached alerts and silences are as before, and no notification is
  created.
\<close>

theorem fetch_failure_degraded_badge:
  assumes "getActiveInstance (sync_reads env 0) = Inr (Some inst)"
    and "getSettings (sync_reads env 1) = Inr settings"
    and "getAlerts env inst (defaultFilter settings) = Inl e"
  shows "\<exists>w'. pollAlerts env w = Inr w'
           \<and> badgeText w' = ''!''
           \<and> badgeBackgroundColor w' = ''#6b7280''
           \<and> badgeTextColor w' = ''#FFFFFF''
           \<and> knownFingerprints w' = knownFingerprints w
           \<and> cachedAlerts w' = cachedAlerts w
           \<and> cachedSilences w' = cachedSilences w
           \<and> notifications_in (calls_since w w') = []
           \<and> calls_since w w' =
               [ConsoleError ''[Alertmanager Monitor] Poll failed:'' (err_message e),
                SetBadgeText ''!'', SetBadgeBackgroundColor ''#6b7280'',
                SetBadgeTextColor ''#FFFFFF'']"
  using assms by (simp add: pollAlerts_def calls_since_def)

theorem fetch_failure_degraded_badge_witness:
  "\<exists>w'. pollAlerts (example_env True 30 (Response False 503 ''Service Unavailable'' (Inl [])))
            cached_world = Inr w'
        \<and> badgeText w' = ''!''
        \<and> badgeBackgroundColor w' = ''#6b7280''
        \<and> getKnownFingerprints ''am1'' w' = [''old'']
        \<and> cachedAlerts w' ''am1'' = Some ([mk_alert ''old'' ''critical'' ''active''], 900)
        \<and> notifications_in (calls_since cached_world w') = []
        \<and> calls_since cached_world w' =
               [ConsoleError ''[Alertmanager Monitor] Poll failed:''
                  ''HTTP 503: Service Unavailable'',
                SetBadgeText ''!'', SetBadgeBackgroundColor ''#6b7280'',
                SetBadgeTextColor ''#FFFFFF'']"
  using fetch_failure_degraded_badge
     [of "example_env True 30 (Response False 503 ''Service Unavailable'' (Inl []))"
         example_instance
         "\<lparr>instances = [example_instance], activeInstanceId = Some ''am1'', pollInterval = 30,
          enableNotifications = True, enableBadge = True, theme = ''light'',
          defaultFilter = defaultFilter DEFAULT_SETTINGS\<rparr>"
         "Error ''HTTP 503: Service Unavailable''" cached_world]
  by (auto simp add: string_of_nat.simps digit_char_def cached_world_def warm_world_def
      fresh_world_def getKnownFingerprints_def)

text \<open>
  Claim C8. With notifications disabled in the settings, a poll cycle leaves the stored
  fingerprints of every instance as they were, also when the fetch succeeds, and makes
  no write of a fingerprint list or under a \<open>fingerprints_\<close> key.
\<close>

theorem notifications_disabled_keeps_fingerprints:
  assumes "getSettings (sync_reads env 1) = Inr settings"
    and "\<not> enableNotifications settings"
    and "pollAlerts env w = Inr w'"
  shows "knownFingerprints w' = knownFingerprints w
         \<and> (\<forall>i. getKnownFingerprints i w' = getKnownFingerprints i w)
         \<and> fingerprint_writes (calls_since w w') = []"
  using assms
  by (auto simp add: pollAlerts_def Let_def calls_since_def calls_updateBadge
      getKnownFingerprints_def fingerprint_writes_append
      split: sum.splits option.splits)

theorem notifications_disabled_keeps_fingerprints_witness:
  "\<exists>w'. pollAlerts (example_env False 30 (Response True 200 ''OK''
              (Inr [mk_alert ''f1'' ''critical'' ''active''])))
            warm_world = Inr w'
        \<and> getKnownFingerprints ''am1'' w' = [''old'']
        \<and> cachedAlerts w' ''am1'' = Some ([mk_alert ''f1'' ''critical'' ''active''], 1000)
        \<and> badgeText w' = ''1''
        \<and> fingerprint_writes (calls_since warm_world w') = []"
proof -
  let ?env = "example_env False 30 (Response True 200 ''OK''
              (Inr [mk_alert ''f1'' ''critical'' ''active'']))"
  obtain w' where w': "pollAlerts ?env warm_world = Inr w'"
    and cached: "cachedAlerts w' ''am1'' = Some ([mk_alert ''f1'' ''critical'' ''active''], 1000)"
    and badge: "badgeText w' = ''1''"
    by (simp add: pollAlerts_def Let_def badgeText_updateBadge countActiveAlerts_def
        string_of_nat.simps digit_char_def)
  from notifications_disabled_keeps_fingerprints [OF _ _ w', of
         "\<lparr>instances = [example_instance], activeInstanceId = Some ''am1'', pollInterval = 30,
          enableNotifications = False, enableBadge = True, theme = ''light'',
          defaultFilter = defaultFilter DEFAULT_SETTINGS\<rparr>"]
  have "getKnownFingerprints ''am1'' w' = getKnownFingerprints ''am1'' warm_world
        \<and> fingerprint_writes (calls_since warm_world w') = []"
    by simp
  with w' cached badge show ?thesis by simp
qed

subsection \<open>The scheduler\<close>

text \<open>The rounding, at the numbers of the examples below.\<close>

lemma double_examples:
  "double (1 / 10) = 3602879701896397 / 36028797018963968"
  "double (1 / 6) = 6004799503160661 / 36028797018963968"
  "double (31 / 60) = 4653719614949513 / 9007199254740992"
  "double (3 / 4) = 3 / 4"
  by code_simp+

text \<open>
  The exponent brackets its argument, rounding to an integer moves by at most one half,
  and so \<open>double\<close> has a relative error of at most \<open>2^-53\<close>; and it does not round a
  value of at most one half above one half.
\<close>

lemma bitlen_bounds: "0 < n \<Longrightarrow> 2 ^ (bitlen n - 1) \<le> n \<and> n < 2 ^ bitlen n"
proof (induction n rule: bitlen.induct)
  case (1 n)
  show ?case
  proof (cases "n div 2 = 0")
    case True
    with "1.prems" have "n = 1" by (simp add: div_eq_0_iff) 
    then show ?thesis
      by (simp add: bitlen.simps [of 1] bitlen.simps [of 0] bitlen.simps [of "Suc 0"])
  next
    case False
    then have pos: "0 < n div 2" by simp
    from "1.IH" [OF _ pos] "1.prems"
    have ih: "2 ^ (bitlen (n div 2) - 1) \<le> n div 2" "n div 2 < 2 ^ bitlen (n div 2)"
      by simp_all
    have bl: "bitlen n = Suc (bitlen (n div 2))"
      using "1.prems" by (subst bitlen.simps) simp
    have blpos: "0 < bitlen (n div 2)"
      using pos by (subst bitlen.simps) simp
    then have "2 ^ bitlen (n div 2) = (2::nat) * 2 ^ (bitlen (n div 2) - 1)"
      by (cases "bitlen (n div 2)") simp_all
    with ih show ?thesis
      unfolding bl by (simp, linarith)
  qed
qed

lemma powi_neg_nat: "(2::rat) powi (- int j) = 1 / 2 ^ j"
  by (simp add: power_int_minus field_simps)

lemma powi_succ: "(2::rat) powi (e + 1) = 2 * 2 powi e"
  by (subst power_int_add_1) simp_all

lemma exponent_bounds:
  assumes "0 < x"
  shows "2 powi exponent x \<le> x \<and> x < 2 powi (exponent x + 1)"
proof (cases "1 \<le> x")
  case True
  define n where "n = nat \<lfloor>x\<rfloor>"
  have n1: "0 < n" using True by (simp add: n_def)
  have nx: "of_nat n \<le> x" "x < of_nat n + 1"
    using True by (simp_all add: n_def) linarith+
  have e: "exponent x = int (bitlen n) - 1"
    using True by (simp add: exponent_def n_def)
  from bitlen_bounds [OF n1] have b: "2 ^ (bitlen n - 1) \<le> n" "n + 1 \<le> 2 ^ bitlen n"
    by simp_all
  have blpos: "0 < bitlen n" using n1 by (subst bitlen.simps) simp
  have "int (bitlen n) - 1 = int (bitlen n - 1)"
    using blpos by simp
  then have "(2::rat) powi (int (bitlen n) - 1) = 2 ^ (bitlen n - 1)"
    by (simp only: power_int_of_nat)
  moreover have "(2::rat) ^ (bitlen n - 1) \<le> of_nat n"
    using of_nat_mono [OF b(1), where 'a = rat] by simp
  moreover have "of_nat n + 1 \<le> (2::rat) ^ bitlen n"
    using of_nat_mono [OF b(2), where 'a = rat] by simp
  moreover have "(2::rat) powi (int (bitlen n) - 1 + 1) = 2 ^ bitlen n"
    by simp
  ultimately show ?thesis
    using nx unfolding e by linarith
next
  case False
  define m where "m = nat \<lfloor>1 / x\<rfloor>"
  define j where "j = bitlen m - 1"
  have x1: "x < 1" using False by simp
  then have inv1: "1 \<le> 1 / x" using assms by simp
  have m1: "0 < m" using inv1 by (simp add: m_def)
  have mx: "of_nat m \<le> 1 / x" "1 / x < of_nat m + 1"
    using inv1 by (simp_all add: m_def) linarith+
  from bitlen_bounds [OF m1] have b: "2 ^ j \<le> m" "m + 1 \<le> 2 ^ bitlen m"
    by (simp_all add: j_def)
  have blpos: "0 < bitlen m" using m1 by (subst bitlen.simps) simp
  then have bl: "bitlen m = Suc j" by (simp add: j_def)
  have jint: "int (bitlen m) - 1 = int j" using bl by simp
  have "(2::rat) ^ j \<le> of_nat m"
    using of_nat_mono [OF b(1), where 'a = rat] by simp
  then have lo: "(2::rat) ^ j \<le> 1 / x"
    using mx(1) by linarith
  have hi: "1 / x < (2::rat) ^ Suc j"
  proof -
    have "of_nat m + 1 \<le> (2::rat) ^ bitlen m"
      using of_nat_mono [OF b(2), where 'a = rat] by simp
    then show ?thesis using mx(2) bl by simp
  qed
  have p: "(0::rat) < 2 ^ j" by simp
  from lo have le: "x * 2 ^ j \<le> 1"
    using assms by (simp add: field_simps)
  from hi have gt: "1 < x * 2 ^ Suc j"
    using assms by (simp add: field_simps)
  show ?thesis
  proof (cases "x * 2 ^ j = 1")
    case True
    then have e: "exponent x = - int j"
      using False by (simp add: exponent_def Let_def m_def [symmetric] jint)
    have xe: "x = 1 / 2 ^ j" using True by (simp add: field_simps)
    have "(2::rat) powi (- int j + 1) = 2 / 2 ^ j"
      by (simp only: powi_succ powi_neg_nat)
    moreover have "(1::rat) / 2 ^ j < 2 / 2 ^ j"
      by (simp add: divide_strict_right_mono)
    ultimately show ?thesis using xe e powi_neg_nat [of j] by simp
  next
    case neq: False
    then have e: "exponent x = - int j - 1"
      using False by (simp add: exponent_def Let_def m_def [symmetric] jint)
    have "- int j - 1 = - int (Suc j)" by simp
    then have a: "(2::rat) powi (- int j - 1) = 1 / 2 ^ Suc j"
      by (simp only: powi_neg_nat)
    have b': "(2::rat) powi (- int j - 1 + 1) = 1 / 2 ^ j"
      using powi_neg_nat [of j] by simp
    have "1 / 2 ^ Suc j \<le> x"
      using gt by (simp add: field_simps)
    moreover have "x < 1 / 2 ^ j"
      using le neq by (simp add: field_simps)
    ultimately show ?thesis using e a b' by simp
  qed
qed

lemma round_half_even_error: "\<bar>of_int (round_half_even y) - y\<bar> \<le> 1 / 2"
proof -
  have "of_int \<lfloor>y\<rfloor> \<le> y" "y < of_int \<lfloor>y\<rfloor> + 1" by linarith+
  then show ?thesis
    by (auto simp add: round_half_even_def Let_def)
qed

lemma round_half_even_le: "y \<le> of_int k \<Longrightarrow> round_half_even y \<le> k"
proof -
  assume a: "y \<le> of_int k"
  have f: "\<lfloor>y\<rfloor> \<le> k" using a by (simp add: floor_le_iff) 
  show ?thesis
  proof (cases "y = of_int \<lfloor>y\<rfloor>")
    case True
    then show ?thesis using f by (simp add: round_half_even_def Let_def)
  next
    case False
    then have "of_int \<lfloor>y\<rfloor> < y" by linarith
    then have "of_int \<lfloor>y\<rfloor> < (of_int k :: rat)" using a by linarith
    then have "\<lfloor>y\<rfloor> + 1 \<le> k" by simp
    then show ?thesis using f by (simp add: round_half_even_def Let_def)
  qed
qed

lemma round_half_even_nonneg: "0 \<le> y \<Longrightarrow> 0 \<le> round_half_even y"
  by (simp add: round_half_even_def Let_def)

lemma double_error: "\<bar>double x - x\<bar> \<le> \<bar>x\<bar> / 2 ^ 53"
proof (cases "x = 0")
  case True
  then show ?thesis by (simp add: double_def)
next
  case False
  define a where "a = \<bar>x\<bar>"
  define e where "e = exponent a"
  define s :: rat where "s = 2 powi (52 - e)"
  define n where "n = round_half_even (a * s)"
  have apos: "0 < a" using False by (simp add: a_def)
  have spos: "0 < s" by (simp add: s_def)
  have d: "double x = sgn x * of_int n / s"
    using False by (simp add: double_def Let_def a_def e_def s_def n_def)
  have x: "x = sgn x * a" by (simp add: a_def mult_sgn_abs)
  have "double x - x = sgn x * ((of_int n - a * s) / s)"
    using spos by (subst x, subst d) (simp add: field_simps)
  then have "\<bar>double x - x\<bar> = \<bar>of_int n - a * s\<bar> / s"
    using False spos by (simp add: abs_mult abs_sgn_eq)
  also have "\<dots> \<le> (1 / 2) / s"
    using round_half_even_error [of "a * s"] spos
    by (intro divide_right_mono) (simp_all add: n_def)
  also have "(1 / 2) / s = 2 powi e / 2 ^ 53"
  proof -
    have "(2::rat) powi e = 2 powi (52 - e + (2 * e - 52))" by simp
    have "s * 2 powi e = 2 powi (52 - e + e)"
      unfolding s_def by (subst power_int_add) simp_all
    then have "s * 2 powi e = 2 ^ 52" by simp
    then show ?thesis using spos by (simp add: field_simps)
  qed
  also have "\<dots> \<le> a / 2 ^ 53"
    using exponent_bounds [OF apos] by (simp add: e_def divide_right_mono)
  finally show ?thesis by (simp add: a_def)
qed

lemma double_le_half: "x \<le> 1 / 2 \<Longrightarrow> double x \<le> 1 / 2"
proof -
  assume h: "x \<le> 1 / 2"
  consider "x = 0" | "x < 0" | "0 < x" by linarith
  then show ?thesis
  proof cases
    case 1
    then show ?thesis by (simp add: double_def)
  next
    case 2
    define s :: rat where "s = 2 powi (52 - exponent \<bar>x\<bar>)"
    define n where "n = round_half_even (\<bar>x\<bar> * s)"
    have spos: "0 < s" by (simp add: s_def)
    have "0 \<le> n"
      unfolding n_def using spos by (intro round_half_even_nonneg) simp
    then have q: "0 \<le> of_int n / s"
      using spos by simp
    have "double x = sgn x * of_int n / s"
      using 2 by (simp add: double_def Let_def s_def n_def)
    also have "\<dots> = - (of_int n / s)"
      using 2 by simp
    finally show ?thesis using q by linarith
  next
    case 3
    define e where "e = exponent x"
    define s :: rat where "s = 2 powi (52 - e)"
    define k :: int where "k = 2 ^ nat (51 - e)"
    have spos: "0 < s" by (simp add: s_def)
    have le: "(2::rat) powi e \<le> 2 powi (- 1)"
      using exponent_bounds [OF 3] h by (simp add: e_def power_int_minus)
    have e1: "e \<le> - 1"
    proof (rule ccontr)
      assume "\<not> e \<le> - 1"
      then have "- 1 < e" by simp
      then have "(2::rat) powi (- 1) < 2 powi e"
        by (rule power_int_strict_increasing) simp
      with le show False by simp
    qed
    have ks: "of_int k = s / 2"
    proof -
      have "52 - e = int (nat (51 - e)) + 1" using e1 by simp
      then have "s = 2 * 2 ^ nat (51 - e)"
        unfolding s_def by (simp only: powi_succ power_int_of_nat)
      then show ?thesis by (simp add: k_def)
    qed
    have "x * s \<le> of_int k"
      using h spos by (simp add: ks field_simps)
    then have "round_half_even (x * s) \<le> k" by (rule round_half_even_le)
    then have "of_int (round_half_even (x * s)) \<le> s / 2"
      using ks by (metis of_int_le_iff)
    then have "of_int (round_half_even (x * s)) / s \<le> 1 / 2"
      using spos by (simp add: field_simps)
    then show ?thesis
      using 3 by (simp add: double_def Let_def e_def [symmetric] s_def [symmetric])
  qed
qed

lemma alarms_after_arming:
  "alarms (alarms_create n a (alarms_clear n w))
     = filter (\<lambda>p. fst p \<noteq> n) (alarms w) @ [(n, a)]"
  "calls (alarms_create n a (alarms_clear n w)) = calls w @ [AlarmsClear n, AlarmsCreate n a]"
  by (simp_all add: alarms_create_def alarms_clear_def logged_def)

lemma period_facts:
  fixes p :: rat
  assumes "period = max (double (p / 60)) (1 / 2)"
  shows "1 / 2 \<le> period"
    and "p \<le> 30 \<Longrightarrow> period = 1 / 2"
    and "30 \<le> p \<Longrightarrow> \<bar>60 * period - p\<bar> \<le> p / 2 ^ 53"
    and "60 * period = max p 30 \<longleftrightarrow> p \<le> 30 \<or> double (p / 60) = p / 60"
proof -
  show "1 / 2 \<le> period" using assms by simp
  show a: "period = 1 / 2" if "p \<le> 30"
    using double_le_half [of "p / 60"] that assms by simp
  show "\<bar>60 * period - p\<bar> \<le> p / 2 ^ 53" if "30 \<le> p"
  proof -
    have "\<bar>double (p / 60) - p / 60\<bar> \<le> (p / 60) / 2 ^ 53"
      using double_error [of "p / 60"] that by simp
    moreover have "\<bar>period - p / 60\<bar> \<le> \<bar>double (p / 60) - p / 60\<bar>"
      using assms that by (simp add: max_def split: if_splits)
    ultimately have "\<bar>period - p / 60\<bar> \<le> (p / 60) / 2 ^ 53" by linarith
    then have "60 * \<bar>period - p / 60\<bar> \<le> 60 * ((p / 60) / 2 ^ 53)" by simp
    then show ?thesis by (simp add: abs_if split: if_splits)
  qed
  show "60 * period = max p 30 \<longleftrightarrow> p \<le> 30 \<or> double (p / 60) = p / 60"
  proof (cases "p \<le> 30")
    case True
    then show ?thesis using a by simp
  next
    case False
    then show ?thesis using assms by (auto simp add: max_def)
  qed
qed

text \<open>
  Claim C6, as the code has it. \<open>setupAlarm\<close>, once the settings are read, makes two
  calls: it clears the poll alarm, then creates it with the delay \<open>0.1\<close> and with the
  period \<open>Math.max(pollInterval / 60, 0.5)\<close>, in minutes, the division being the
  binary64 one. The period is at least one half; it is exactly one half, the equivalent
  of 30 seconds, for every interval of at most 30; for a larger interval it is the
  interval over 60 rounded to binary64, so that 60 times the period is within
  \<open>interval / 2^53\<close> of the interval, and is the interval exactly when the quotient
  needs no rounding and only then. After the two calls exactly one alarm of that name
  is set, whatever was set before, and running \<open>setupAlarm\<close> again leaves the alarms as
  they are.
\<close>

theorem setupAlarm_clear_then_create:
  assumes "getSettings (sync_reads env 0) = Inr settings"
    and "period = max (double (pollInterval settings / 60)) (1 / 2)"
  shows "\<exists>w'. setupAlarm env w = Inr w'
           \<and> calls_since w w' =
               [AlarmsClear ALARM_NAME,
                AlarmsCreate ALARM_NAME
                  \<lparr>delayInMinutes = double (1 / 10), periodInMinutes = period\<rparr>]
           \<and> 1 / 2 \<le> period
           \<and> (pollInterval settings \<le> 30 \<longrightarrow> period = 1 / 2)
           \<and> (30 \<le> pollInterval settings \<longrightarrow>
                \<bar>60 * period - pollInterval settings\<bar> \<le> pollInterval settings / 2 ^ 53)
           \<and> (60 * period = max (pollInterval settings) 30 \<longleftrightarrow>
                pollInterval settings \<le> 30
                \<or> double (pollInterval settings / 60) = pollInterval settings / 60)
           \<and> filter (\<lambda>p. fst p = ALARM_NAME) (alarms w') =
               [(ALARM_NAME, \<lparr>delayInMinutes = double (1 / 10), periodInMinutes = period\<rparr>)]
           \<and> (\<exists>w''. setupAlarm env w' = Inr w''
                 \<and> alarms w'' = alarms w'
                 \<and> filter (\<lambda>p. fst p = ALARM_NAME) (alarms w'') =
                     [(ALARM_NAME,
                       \<lparr>delayInMinutes = double (1 / 10), periodInMinutes = period\<rparr>)])"
proof -
  note facts = period_facts [OF assms(2)]
  have state: "\<exists>w'. setupAlarm env w = Inr w'
           \<and> calls_since w w' =
               [AlarmsClear ALARM_NAME,
                AlarmsCreate ALARM_NAME
                  \<lparr>delayInMinutes = double (1 / 10), periodInMinutes = period\<rparr>]
           \<and> filter (\<lambda>p. fst p = ALARM_NAME) (alarms w') =
               [(ALARM_NAME, \<lparr>delayInMinutes = double (1 / 10), periodInMinutes = period\<rparr>)]
           \<and> (\<exists>w''. setupAlarm env w' = Inr w''
                 \<and> alarms w'' = alarms w'
                 \<and> filter (\<lambda>p. fst p = ALARM_NAME) (alarms w'') =
                     [(ALARM_NAME,
                       \<lparr>delayInMinutes = double (1 / 10), periodInMinutes = period\<rparr>)])"
    using assms
    by (simp add: setupAlarm_def Let_def alarms_after_arming calls_since_def
        filter_filter cong: filter_cong)
  from state facts show ?thesis by blast
qed

theorem setupAlarm_clear_then_create_witness:
  "(\<exists>w'. setupAlarm (example_env True 10 Aborted) armed_world = Inr w'
        \<and> alarms w' =
            [(ALARM_NAME,
              \<lparr>delayInMinutes = 3602879701896397 / 36028797018963968,
               periodInMinutes = 1 / 2\<rparr>)])
   \<and> (\<exists>w'. setupAlarm (example_env True 45 Aborted) armed_world = Inr w'
        \<and> calls_since armed_world w' =
               [AlarmsClear ALARM_NAME,
                AlarmsCreate ALARM_NAME
                  \<lparr>delayInMinutes = 3602879701896397 / 36028797018963968,
                   periodInMinutes = 3 / 4\<rparr>]
        \<and> alarms w' =
            [(ALARM_NAME,
              \<lparr>delayInMinutes = 3602879701896397 / 36028797018963968,
               periodInMinutes = 3 / 4\<rparr>)])
   \<and> (\<exists>w'. setupAlarm (example_env True 31 Aborted) armed_world = Inr w'
        \<and> alarms w' =
            [(ALARM_NAME,
              \<lparr>delayInMinutes = 3602879701896397 / 36028797018963968,
               periodInMinutes = 4653719614949513 / 9007199254740992\<rparr>)]
        \<and> \<bar>60 * (4653719614949513 / 9007199254740992) - 31\<bar> \<le> (31 :: rat) / 2 ^ 53)"
proof -
  have a: "alarms w' = filter (\<lambda>p. fst p = ALARM_NAME) (alarms w')"
    if "setupAlarm (example_env True iv Aborted) armed_world = Inr w'" for w' iv
    using that
    by (auto simp add: setupAlarm_def Let_def alarms_after_arming armed_world_def
        fresh_world_def)
  show ?thesis
    using setupAlarm_clear_then_create
            [of "example_env True 10 Aborted" _ "1 / 2" armed_world]
      setupAlarm_clear_then_create
            [of "example_env True 45 Aborted" _ "3 / 4" armed_world]
      setupAlarm_clear_then_create
            [of "example_env True 31 Aborted" _ "4653719614949513 / 9007199254740992"
                armed_world]
      a
    by (auto simp add: double_examples)
qed

text \<open>
  Claim C6, as stated, at a stored interval of 31 seconds: the period passed to the
  alarm is \<open>0.5166666666666667\<close> minutes, the binary64 value
  \<open>4653719614949513 / 2^53\<close>, and 60 times it is not 31, the larger of 31 and 30.
\<close>

theorem setupAlarm_period_not_exact:
  "map_sum id alarms (setupAlarm (example_env True 31 Aborted) armed_world) =
     Inr [(ALARM_NAME,
           \<lparr>delayInMinutes = 3602879701896397 / 36028797018963968,
            periodInMinutes = 4653719614949513 / 9007199254740992\<rparr>)]
   \<and> 60 * (4653719614949513 / 9007199254740992) \<noteq> max (31 :: rat) 30"
  by (simp add: setupAlarm_def Let_def alarms_after_arming armed_world_def fresh_world_def
      double_examples)

subsection \<open>Three cycles in a row\<close>

text \<open>
  The sample environment with notifications enabled and a fetch that succeeds: the
  cycle caches the alerts, sets the badge, checks for new alerts and caches the
  silences.
\<close>

lemma pollAlerts_example:
  "pollAlerts (example_env True iv (Response True 200 ''OK'' (Inr alerts))) w =
     Inr (cacheSilences ''am1'' 1001 []
            (checkForNewAlerts (example_env True iv (Response True 200 ''OK'' (Inr alerts)))
               ''am1'' alerts
               (updateBadge alerts True (cacheAlerts ''am1'' 1000 alerts w))))"
  by (simp add: pollAlerts_def Let_def)

text \<open>
  From a state with nothing stored, a fetch of two active alerts (critical and warning)
  notifies nothing, stores both fingerprints and shows \<open>2\<close> on red. The same fetch again
  notifies nothing. A third fetch with one more active alert, of severity info, creates
  the one notification of that alert, stores the three fingerprints and shows \<open>3\<close>, still
  on red.
\<close>

lemma three_cycle_scenario:
  "\<exists>w1 w2 w3.
     pollAlerts (example_env True 30 (Response True 200 ''OK''
        (Inr [mk_alert ''fp1'' ''critical'' ''active'', mk_alert ''fp2'' ''warning'' ''active''])))
        fresh_world = Inr w1
     \<and> notifications_in (calls_since fresh_world w1) = []
     \<and> getKnownFingerprints ''am1'' w1 = [''fp1'', ''fp2'']
     \<and> badgeText w1 = ''2'' \<and> badgeBackgroundColor w1 = ''#dc2626''
     \<and> pollAlerts (example_env True 30 (Response True 200 ''OK''
        (Inr [mk_alert ''fp1'' ''critical'' ''active'', mk_alert ''fp2'' ''warning'' ''active''])))
        w1 = Inr w2
     \<and> notifications_in (calls_since w1 w2) = []
     \<and> getKnownFingerprints ''am1'' w2 = [''fp1'', ''fp2'']
     \<and> badgeText w2 = ''2'' \<and> badgeBackgroundColor w2 = ''#dc2626''
     \<and> pollAlerts (example_env True 30 (Response True 200 ''OK''
        (Inr [mk_alert ''fp1'' ''critical'' ''active'', mk_alert ''fp2'' ''warning'' ''active'',
              mk_alert ''fp3'' ''info'' ''active''])))
        w2 = Inr w3
     \<and> map fst (notifications_in (calls_since w2 w3)) = [''am-alert-fp3'']
     \<and> getKnownFingerprints ''am1'' w3 = [''fp1'', ''fp2'', ''fp3'']
     \<and> badgeText w3 = ''3'' \<and> badgeBackgroundColor w3 = ''#dc2626''"
  by (simp add: pollAlerts_example calls_since_def calls_checkForNewAlerts calls_updateBadge
      notifications_in_append notifications_in_creates new_alerts_def Let_def
      badgeText_updateBadge badgeBackgroundColor_updateBadge getBadgeColor_critical
      countActiveAlerts_def string_of_nat.simps digit_char_def NOTIFICATION_ID_PREFIX_def)

text \<open>
  A check on an empty fetch stores the empty list, and the check after it then notifies
  nothing, whatever it fetches: an empty stored list reads as a first poll.
\<close>

lemma empty_fetch_resets_cold_start:
  "getKnownFingerprints i (checkForNewAlerts env i [] w) = []
   \<and> notifications_in
        (calls_since (checkForNewAlerts env i [] w)
           (checkForNewAlerts env i alerts (checkForNewAlerts env i [] w))) = []"
  by (simp add: calls_checkForNewAlerts calls_since_def Let_def)

end
